theory Spec2Isabelle
  imports Main
begin

chapter \<open>The datastore schema converter (datastore\_pbs)\<close>

text \<open>
  A shallow embedding of \<^verbatim>\<open>google/appengine/datastore/datastore_pbs.py\<close>: the
  identifier resolver, the key converters, the completeness predicates, the
  property/value converters between the legacy (v3) and the modern (v4, v1) schemas,
  the embedded point and user entities, and the filter converters.

  Conventions of the embedding.
  \<^item> A protocol buffer message is a record (or a datatype where it is recursive). A
    proto2 optional field is an \<open>option\<close>: \<open>None\<close> is "not set"
    (\<^verbatim>\<open>HasField\<close> is False) and reading it gives the field's default. A proto3
    scalar has no presence and is a plain value; a proto3 \<^verbatim>\<open>oneof\<close> is a datatype.
  \<^item> A conversion function of the source clears and fills a destination message; the
    model returns the filled message.
  \<^item> An exception is a value of \<open>error\<close>; a function that may raise returns
    \<open>error + 'a\<close>.
  \<^item> Byte strings and text are both \<open>string\<close> (a list of 8-bit characters): a text
    field is represented by its UTF-8 encoding, as on the wire, so that
    \<^verbatim>\<open>s.encode('utf-8')\<close> reads that encoding back. An assignment to a field is a
    store. Of the checks that the protocol buffer runtime makes on an assignment the
    model has the two that a modern Value can trip on its way back: text stored into the
    bytes of a legacy string value without being encoded (TypeError), and a number
    stored into the legacy meaning that the legacy enum does not have (ValueError).
  \<^item> A double is its 64-bit IEEE pattern, kept as the natural number below \<open>2^64\<close>
    that the pattern spells; the converters only ever copy doubles.
\<close>

section \<open>Errors and field reads\<close>

datatype error =
    InvalidConversionError string
  | KeyError string
  | IndexError
  | AssertionError
  | TypeError
  | ValueError
  | AttributeError
  | DecodeError
  | RecursionError

type_synonym double = nat

text \<open>\<^verbatim>\<open>check_conversion(condition, message)\<close> raises unless the condition holds.\<close>

definition check_conversion :: "bool \<Rightarrow> string \<Rightarrow> error + unit" where
  "check_conversion condition message =
     (if \<not> condition then Inl (InvalidConversionError message) else Inr ())"

text \<open>Reading an optional field: the stored value, or the default of its type.\<close>

definition str_get :: "string option \<Rightarrow> string" where
  "str_get f = (case f of None \<Rightarrow> [] | Some s \<Rightarrow> s)"

definition int_get :: "int option \<Rightarrow> int" where
  "int_get f = (case f of None \<Rightarrow> 0 | Some i \<Rightarrow> i)"

definition HasField :: "'a option \<Rightarrow> bool" where
  "HasField f = (f \<noteq> None)"

section \<open>The identifier resolver\<close>

text \<open>
  \<^verbatim>\<open>app_id.rsplit('~')\<close> without a limit cuts the string at every separator and
  gives the list of the pieces. \<^verbatim>\<open>[-1]\<close> takes the last piece and raises IndexError
  on an empty list.
\<close>

fun rsplit :: "char \<Rightarrow> string \<Rightarrow> string list" where
  "rsplit sep [] = [[]]"
| "rsplit sep (c # cs) =
     (if c = sep then [] # rsplit sep cs
      else (case rsplit sep cs of
              [] \<Rightarrow> [[c]]
            | p # ps \<Rightarrow> (c # p) # ps))"

definition last_item :: "'a list \<Rightarrow> error + 'a" where
  "last_item xs = (if xs = [] then Inl IndexError else Inr (last xs))"

text \<open>
  \<^verbatim>\<open>IdResolver\<close> holds the table built by its constructor;
  \<^verbatim>\<open>_IdentityIdResolver\<close> overrides both methods with the identity.
\<close>

datatype id_resolver =
    IdResolver "string \<rightharpoonup> string"
  | IdentityIdResolver

definition IdResolver_resolve_project_id :: "string \<Rightarrow> error + string" where
  "IdResolver_resolve_project_id app_id = last_item (rsplit (CHR ''~'') app_id)"

fun IdResolver_fill :: "string list \<Rightarrow> (string \<rightharpoonup> string) \<Rightarrow> error + (string \<rightharpoonup> string)" where
  "IdResolver_fill [] resolver_map = Inr resolver_map"
| "IdResolver_fill (app_id # app_ids) resolver_map =
     (case IdResolver_resolve_project_id app_id of
        Inl e \<Rightarrow> Inl e
      | Inr project_id \<Rightarrow> IdResolver_fill app_ids (resolver_map(project_id \<mapsto> app_id)))"

definition IdResolver_init :: "string list \<Rightarrow> error + id_resolver" where
  "IdResolver_init app_ids =
     (case IdResolver_fill app_ids Map.empty of
        Inl e \<Rightarrow> Inl e
      | Inr resolver_map \<Rightarrow> Inr (IdResolver resolver_map))"

fun resolve_project_id :: "id_resolver \<Rightarrow> string \<Rightarrow> error + string" where
  "resolve_project_id (IdResolver resolver_map) app_id = IdResolver_resolve_project_id app_id"
| "resolve_project_id IdentityIdResolver app_id = Inr app_id"

definition unknown_project_message :: "string \<Rightarrow> string" where
  "unknown_project_message project_id =
     ''Cannot determine application id for provided project id: '' @
     [CHR 0x22] @ project_id @ [CHR 0x22] @ ''.''"

fun resolve_app_id :: "id_resolver \<Rightarrow> string \<Rightarrow> error + string" where
  "resolve_app_id (IdResolver resolver_map) project_id =
     (case check_conversion (resolver_map project_id \<noteq> None)
             (unknown_project_message project_id) of
        Inl e \<Rightarrow> Inl e
      | Inr _ \<Rightarrow>
          (case resolver_map project_id of
             None \<Rightarrow> Inl (KeyError project_id)
           | Some app_id \<Rightarrow> Inr app_id))"
| "resolve_app_id IdentityIdResolver project_id = Inr project_id"

section \<open>Keys\<close>

text \<open>The legacy Reference: an app, a name space and a path of elements.\<close>

record v3_element =
  v3e_type :: "string option"
  v3e_id :: "int option"
  v3e_name :: "string option"

record v3_reference =
  v3r_app :: "string option"
  v3r_name_space :: "string option"
  v3r_path :: "v3_element list"

text \<open>The v4 Key (proto2).\<close>

record v4_partition_id =
  v4p_dataset_id :: "string option"
  v4p_namespace :: "string option"

record v4_path_element =
  v4e_kind :: "string option"
  v4e_id :: "int option"
  v4e_name :: "string option"

record v4_key =
  v4k_partition_id :: "v4_partition_id option"
  v4k_path_element :: "v4_path_element list"

text \<open>The v1 Key (proto3): the id and the name of an element are one \<^verbatim>\<open>oneof\<close>.\<close>

datatype v1_id_type = Id_type_unset | Id int | Name string

record v1_partition_id =
  v1p_project_id :: string
  v1p_namespace_id :: string

record v1_path_element =
  v1e_kind :: string
  v1e_id_type :: v1_id_type

record v1_key =
  v1k_partition_id :: "v1_partition_id option"
  v1k_path :: "v1_path_element list"

definition v3_reference_Clear :: v3_reference where
  "v3_reference_Clear = \<lparr>v3r_app = None, v3r_name_space = None, v3r_path = []\<rparr>"

definition v4_key_Clear :: v4_key where
  "v4_key_Clear = \<lparr>v4k_partition_id = None, v4k_path_element = []\<rparr>"

definition v1_key_Clear :: v1_key where
  "v1_key_Clear = \<lparr>v1k_partition_id = None, v1k_path = []\<rparr>"

subsection \<open>Completeness\<close>

text \<open>
  Each predicate asserts that the path is not empty and looks at the last element.
  \<^verbatim>\<open>is_complete_v4_key\<close> takes it with \<^verbatim>\<open>v4_key.path_element(n - 1)\<close>: it calls
  the repeated field, which is a container and not a function, so the call raises
  TypeError and the two \<^verbatim>\<open>HasField\<close> tests after it are never reached.
  \<^verbatim>\<open>is_complete_v1_key\<close> subscripts the path and asks which member of the
  \<^verbatim>\<open>oneof\<close> is set. The legacy predicate is an \<^verbatim>\<open>and\<close>/\<^verbatim>\<open>or\<close> chain over the
  fields' values; the model returns its truth value.
\<close>

definition is_complete_v4_key :: "v4_key \<Rightarrow> error + bool" where
  "is_complete_v4_key v4_key =
     (if \<not> length (v4k_path_element v4_key) \<ge> 1 then Inl AssertionError
      else Inl TypeError)"

definition is_complete_v1_key :: "v1_key \<Rightarrow> error + bool" where
  "is_complete_v1_key v1_key =
     (if \<not> length (v1k_path v1_key) \<ge> 1 then Inl AssertionError
      else let last_element = v1k_path v1_key ! (length (v1k_path v1_key) - 1)
           in Inr (v1e_id_type last_element \<noteq> Id_type_unset))"

definition is_complete_v3_key :: "v3_reference \<Rightarrow> error + bool" where
  "is_complete_v3_key v3_key =
     (if \<not> length (v3r_path v3_key) \<ge> 1 then Inl AssertionError
      else let last_element = last (v3r_path v3_key)
           in Inr ((HasField (v3e_id last_element) \<and> int_get (v3e_id last_element) \<noteq> 0) \<or>
                   (HasField (v3e_name last_element) \<and> str_get (v3e_name last_element) \<noteq> [])))"

subsection \<open>Key conversion\<close>

definition v4_to_v3_element :: "v4_path_element \<Rightarrow> v3_element" where
  "v4_to_v3_element v4_element =
     \<lparr>v3e_type = Some (str_get (v4e_kind v4_element)),
      v3e_id = (if HasField (v4e_id v4_element) then Some (int_get (v4e_id v4_element)) else None),
      v3e_name = (if HasField (v4e_name v4_element) then Some (str_get (v4e_name v4_element)) else None)\<rparr>"

definition v4_to_v3_reference :: "v4_key \<Rightarrow> v3_reference" where
  "v4_to_v3_reference v4_key =
     \<lparr>v3r_app = (case v4k_partition_id v4_key of
                   None \<Rightarrow> None
                 | Some p \<Rightarrow> if HasField (v4p_dataset_id p) then Some (str_get (v4p_dataset_id p)) else None),
      v3r_name_space = (case v4k_partition_id v4_key of
                   None \<Rightarrow> None
                 | Some p \<Rightarrow> if HasField (v4p_namespace p) then Some (str_get (v4p_namespace p)) else None),
      v3r_path = map v4_to_v3_element (v4k_path_element v4_key)\<rparr>"

definition v3_to_v4_element :: "v3_element \<Rightarrow> v4_path_element" where
  "v3_to_v4_element v3_element =
     \<lparr>v4e_kind = Some (str_get (v3e_type v3_element)),
      v4e_id = (if HasField (v3e_id v3_element) then Some (int_get (v3e_id v3_element)) else None),
      v4e_name = (if HasField (v3e_name v3_element) then Some (str_get (v3e_name v3_element)) else None)\<rparr>"

definition v3_to_v4_key :: "v3_reference \<Rightarrow> v4_key" where
  "v3_to_v4_key v3_ref =
     (if str_get (v3r_app v3_ref) = [] then v4_key_Clear
      else \<lparr>v4k_partition_id = Some
              \<lparr>v4p_dataset_id = Some (str_get (v3r_app v3_ref)),
               v4p_namespace = (if str_get (v3r_name_space v3_ref) \<noteq> []
                                then Some (str_get (v3r_name_space v3_ref)) else None)\<rparr>,
            v4k_path_element = map v3_to_v4_element (v3r_path v3_ref)\<rparr>)"

text \<open>
  In a v1 element the id is written first and the name second; both are members of one
  \<^verbatim>\<open>oneof\<close>, so a name written after an id replaces it.
\<close>

definition v3_to_v1_element :: "v3_element \<Rightarrow> v1_path_element" where
  "v3_to_v1_element v3_element =
     (let v1_element = \<lparr>v1e_kind = str_get (v3e_type v3_element), v1e_id_type = Id_type_unset\<rparr>;
          v1_element = (if HasField (v3e_id v3_element)
                        then v1_element\<lparr>v1e_id_type := Id (int_get (v3e_id v3_element))\<rparr>
                        else v1_element);
          v1_element = (if HasField (v3e_name v3_element)
                        then v1_element\<lparr>v1e_id_type := Name (str_get (v3e_name v3_element))\<rparr>
                        else v1_element)
      in v1_element)"

definition v3_to_v1_key :: "id_resolver \<Rightarrow> v3_reference \<Rightarrow> error + v1_key" where
  "v3_to_v1_key id_resolver v3_ref =
     (if str_get (v3r_app v3_ref) = [] then Inr v1_key_Clear
      else case resolve_project_id id_resolver (str_get (v3r_app v3_ref)) of
             Inl e \<Rightarrow> Inl e
           | Inr project_id \<Rightarrow> Inr
               \<lparr>v1k_partition_id = Some
                  \<lparr>v1p_project_id = project_id,
                   v1p_namespace_id = (if str_get (v3r_name_space v3_ref) \<noteq> []
                                       then str_get (v3r_name_space v3_ref) else [])\<rparr>,
                v1k_path = map v3_to_v1_element (v3r_path v3_ref)\<rparr>)"

text \<open>
  \<^verbatim>\<open>v1_to_v3_reference\<close>: the app comes from the resolver when the project id is not
  empty; kinds and names are encoded to bytes.
\<close>

definition v1_to_v3_element :: "v1_path_element \<Rightarrow> v3_element" where
  "v1_to_v3_element v1_element =
     \<lparr>v3e_type = Some (v1e_kind v1_element),
      v3e_id = (case v1e_id_type v1_element of Id i \<Rightarrow> Some i | _ \<Rightarrow> None),
      v3e_name = (case v1e_id_type v1_element of Name n \<Rightarrow> Some n | _ \<Rightarrow> None)\<rparr>"

definition v1_to_v3_reference :: "id_resolver \<Rightarrow> v1_key \<Rightarrow> error + v3_reference" where
  "v1_to_v3_reference id_resolver v1_key =
     (case (case v1k_partition_id v1_key of
              None \<Rightarrow> Inr (None, None)
            | Some p \<Rightarrow>
                (case (if v1p_project_id p \<noteq> []
                       then (case resolve_app_id id_resolver (v1p_project_id p) of
                               Inl e \<Rightarrow> Inl e | Inr app_id \<Rightarrow> Inr (Some app_id))
                       else Inr None) of
                   Inl e \<Rightarrow> Inl e
                 | Inr app \<Rightarrow> Inr (app, if v1p_namespace_id p \<noteq> []
                                       then Some (v1p_namespace_id p) else None))) of
        Inl e \<Rightarrow> Inl e
      | Inr (app, name_space) \<Rightarrow> Inr
          \<lparr>v3r_app = app, v3r_name_space = name_space,
           v3r_path = map v1_to_v3_element (v1k_path v1_key)\<rparr>)"

section \<open>Meanings\<close>

text \<open>
  Modelled from the spec: the \<^verbatim>\<open>Property.Meaning\<close> enum of the legacy schema, which the
  generated module \<^verbatim>\<open>entity_bytes_pb2\<close> declares and this module only uses.
  The spec names the meanings (blob, bytestring, blobkey, embedded entity, index value,
  empty list); their numbers are the schema's, and the module's own \<^verbatim>\<open>MEANING_*\<close>
  constants, which follow, repeat them from \<open>1\<close> to \<open>13\<close>, from \<open>15\<close> to \<open>18\<close>
  and at \<open>24\<close>.
\<close>

named_theorems meanings \<open>the numbers of the meaning constants\<close>

definition NO_MEANING :: int where [meanings]: "NO_MEANING = 0"
definition ATOM_CATEGORY :: int where [meanings]: "ATOM_CATEGORY = 1"
definition ATOM_LINK :: int where [meanings]: "ATOM_LINK = 2"
definition ATOM_TITLE :: int where [meanings]: "ATOM_TITLE = 3"
definition ATOM_CONTENT :: int where [meanings]: "ATOM_CONTENT = 4"
definition ATOM_SUMMARY :: int where [meanings]: "ATOM_SUMMARY = 5"
definition ATOM_AUTHOR :: int where [meanings]: "ATOM_AUTHOR = 6"
definition GD_WHEN :: int where [meanings]: "GD_WHEN = 7"
definition GD_EMAIL :: int where [meanings]: "GD_EMAIL = 8"
definition GEORSS_POINT :: int where [meanings]: "GEORSS_POINT = 9"
definition GD_IM :: int where [meanings]: "GD_IM = 10"
definition GD_PHONENUMBER :: int where [meanings]: "GD_PHONENUMBER = 11"
definition GD_POSTALADDRESS :: int where [meanings]: "GD_POSTALADDRESS = 12"
definition GD_RATING :: int where [meanings]: "GD_RATING = 13"
definition BLOB :: int where [meanings]: "BLOB = 14"
definition TEXT :: int where [meanings]: "TEXT = 15"
definition BYTESTRING :: int where [meanings]: "BYTESTRING = 16"
definition BLOBKEY :: int where [meanings]: "BLOBKEY = 17"
definition INDEX_VALUE :: int where [meanings]: "INDEX_VALUE = 18"
definition ENTITY_PROTO :: int where [meanings]: "ENTITY_PROTO = 19"
definition EMPTY_LIST :: int where [meanings]: "EMPTY_LIST = 24"

definition MEANING_NON_RFC_3339_TIMESTAMP :: int where [meanings]: "MEANING_NON_RFC_3339_TIMESTAMP = 7"
definition MEANING_GEORSS_POINT :: int where [meanings]: "MEANING_GEORSS_POINT = 9"
definition MEANING_PREDEFINED_ENTITY_USER :: int where [meanings]: "MEANING_PREDEFINED_ENTITY_USER = 20"
definition MEANING_PREDEFINED_ENTITY_POINT :: int where [meanings]: "MEANING_PREDEFINED_ENTITY_POINT = 21"
definition MEANING_ZLIB :: int where [meanings]: "MEANING_ZLIB = 22"
definition MEANING_POINT_WITHOUT_V3_MEANING :: int where [meanings]: "MEANING_POINT_WITHOUT_V3_MEANING = 23"
definition MEANING_EMPTY_LIST :: int where [meanings]: "MEANING_EMPTY_LIST = 24"

definition URI_MEANING_ZLIB :: string where [meanings]: "URI_MEANING_ZLIB = ''ZLIB''"

definition PROPERTY_NAME_X :: string where [meanings]: "PROPERTY_NAME_X = ''x''"
definition PROPERTY_NAME_Y :: string where [meanings]: "PROPERTY_NAME_Y = ''y''"
definition PROPERTY_NAME_EMAIL :: string where [meanings]: "PROPERTY_NAME_EMAIL = ''email''"
definition PROPERTY_NAME_AUTH_DOMAIN :: string where [meanings]: "PROPERTY_NAME_AUTH_DOMAIN = ''auth_domain''"
definition PROPERTY_NAME_USER_ID :: string where [meanings]: "PROPERTY_NAME_USER_ID = ''user_id''"
definition PROPERTY_NAME_INTERNAL_ID :: string where [meanings]: "PROPERTY_NAME_INTERNAL_ID = ''internal_id''"
definition PROPERTY_NAME_FEDERATED_IDENTITY :: string where
  [meanings]: "PROPERTY_NAME_FEDERATED_IDENTITY = ''federated_identity''"
definition PROPERTY_NAME_FEDERATED_PROVIDER :: string where
  [meanings]: "PROPERTY_NAME_FEDERATED_PROVIDER = ''federated_provider''"

definition RFC_3339_MIN_MICROSECONDS_INCLUSIVE :: int where
  "RFC_3339_MIN_MICROSECONDS_INCLUSIVE = - 62135596800 * 1000 * 1000"

definition RFC_3339_MAX_MICROSECONDS_INCLUSIVE :: int where
  "RFC_3339_MAX_MICROSECONDS_INCLUSIVE = 253402300799 * 1000 * 1000 + 999999"

definition is_in_rfc_3339_bounds :: "int \<Rightarrow> bool" where
  "is_in_rfc_3339_bounds microseconds =
     (RFC_3339_MIN_MICROSECONDS_INCLUSIVE \<le> microseconds \<and>
      microseconds \<le> RFC_3339_MAX_MICROSECONDS_INCLUSIVE)"

section \<open>UTF-8\<close>

text \<open>
  \<^verbatim>\<open>is_valid_utf8\<close> answers True for text and otherwise tries
  \<^verbatim>\<open>s.decode('utf-8')\<close>; the legacy string value it is given holds bytes. The strict
  decoder accepts exactly the well-formed byte sequences: no continuation byte out of
  place, no overlong form, no surrogate, nothing above U+10FFFF.
\<close>

definition continuation :: "nat \<Rightarrow> bool" where
  "continuation b = (0x80 \<le> b \<and> b \<le> 0xBF)"

fun utf8_well_formed :: "nat list \<Rightarrow> bool" where
  "utf8_well_formed [] = True"
| "utf8_well_formed (b0 # bs) =
     (if b0 < 0x80 then utf8_well_formed bs
      else if 0xC2 \<le> b0 \<and> b0 \<le> 0xDF then
        (case bs of
           b1 # r \<Rightarrow> continuation b1 \<and> utf8_well_formed r
         | _ \<Rightarrow> False)
      else if 0xE0 \<le> b0 \<and> b0 \<le> 0xEF then
        (case bs of
           b1 # b2 # r \<Rightarrow>
             (if b0 = 0xE0 then 0xA0 \<le> b1 \<and> b1 \<le> 0xBF
              else if b0 = 0xED then 0x80 \<le> b1 \<and> b1 \<le> 0x9F
              else continuation b1) \<and>
             continuation b2 \<and> utf8_well_formed r
         | _ \<Rightarrow> False)
      else if 0xF0 \<le> b0 \<and> b0 \<le> 0xF4 then
        (case bs of
           b1 # b2 # b3 # r \<Rightarrow>
             (if b0 = 0xF0 then 0x90 \<le> b1 \<and> b1 \<le> 0xBF
              else if b0 = 0xF4 then 0x80 \<le> b1 \<and> b1 \<le> 0x8F
              else continuation b1) \<and>
             continuation b2 \<and> continuation b3 \<and> utf8_well_formed r
         | _ \<Rightarrow> False)
      else False)"

definition is_valid_utf8 :: "string \<Rightarrow> bool" where
  "is_valid_utf8 s = utf8_well_formed (map of_char s)"

text \<open>Text is kept as its UTF-8 encoding; encoding reads it back.\<close>

definition encode_utf8 :: "string \<Rightarrow> string" where
  "encode_utf8 text = text"


text \<open>\<^verbatim>\<open>'%d' % n\<close>: the decimal digits, after a minus sign for a negative number.\<close>

definition digit :: "nat \<Rightarrow> char" where
  "digit d = ''0123456789'' ! d"

fun decimal :: "nat \<Rightarrow> string" where
  "decimal n = (if n < 10 then [digit n] else decimal (n div 10) @ [digit (n mod 10)])"

declare decimal.simps [simp del]

definition format_d :: "int \<Rightarrow> string" where
  "format_d i = (if i < 0 then CHR ''-'' # decimal (nat (- i)) else decimal (nat i))"

section \<open>The legacy property\<close>

record v3_point_value =
  v3pt_x :: double
  v3pt_y :: double

record v3_user_value =
  v3u_email :: string
  v3u_auth_domain :: string
  v3u_gaiaid :: int
  v3u_obfuscated_gaiaid :: "string option"
  v3u_federated_identity :: "string option"
  v3u_federated_provider :: "string option"

record v3_reference_value =
  v3rv_app :: "string option"
  v3rv_name_space :: "string option"
  v3rv_pathelement :: "v3_element list"

record v3_property_value =
  v3v_int64Value :: "int option"
  v3v_booleanValue :: "bool option"
  v3v_stringValue :: "string option"
  v3v_doubleValue :: "double option"
  v3v_pointvalue :: "v3_point_value option"
  v3v_uservalue :: "v3_user_value option"
  v3v_referencevalue :: "v3_reference_value option"

record v3_property =
  v3p_meaning :: "int option"
  v3p_meaning_uri :: "string option"
  v3p_name :: string
  v3p_value :: v3_property_value
  v3p_multiple :: bool

record v3_entity_proto =
  v3n_key :: "v3_reference option"
  v3n_entity_group :: "v3_element list"
  v3n_property :: "v3_property list"
  v3n_raw_property :: "v3_property list"

definition v3_property_value_Clear :: v3_property_value where
  "v3_property_value_Clear =
     \<lparr>v3v_int64Value = None, v3v_booleanValue = None, v3v_stringValue = None,
      v3v_doubleValue = None, v3v_pointvalue = None, v3v_uservalue = None,
      v3v_referencevalue = None\<rparr>"

definition v3_property_Clear :: v3_property where
  "v3_property_Clear =
     \<lparr>v3p_meaning = None, v3p_meaning_uri = None, v3p_name = [],
      v3p_value = v3_property_value_Clear, v3p_multiple = False\<rparr>"

definition v3_entity_proto_Clear :: v3_entity_proto where
  "v3_entity_proto_Clear =
     \<lparr>v3n_key = None, v3n_entity_group = [], v3n_property = [], v3n_raw_property = []\<rparr>"

text \<open>Reading the key of an entity that has none gives an empty Reference.\<close>

definition v3n_key_get :: "v3_entity_proto \<Rightarrow> v3_reference" where
  "v3n_key_get v3_entity = (case v3n_key v3_entity of None \<Rightarrow> v3_reference_Clear | Some k \<Rightarrow> k)"

text \<open>\<^verbatim>\<open>__is_v3_property_value_union_valid\<close> counts the populated slots.\<close>

definition is_v3_property_value_union_valid :: "v3_property_value \<Rightarrow> bool" where
  "is_v3_property_value_union_valid v3_property_value =
     (let num_sub_values =
            of_bool (HasField (v3v_booleanValue v3_property_value)) +
            of_bool (HasField (v3v_int64Value v3_property_value)) +
            of_bool (HasField (v3v_doubleValue v3_property_value)) +
            of_bool (HasField (v3v_referencevalue v3_property_value)) +
            of_bool (HasField (v3v_stringValue v3_property_value)) +
            of_bool (HasField (v3v_pointvalue v3_property_value)) +
            of_bool (HasField (v3v_uservalue v3_property_value))
      in num_sub_values \<le> (1 :: nat))"

text \<open>\<^verbatim>\<open>__is_v3_property_value_meaning_valid\<close> looks the meaning up in a table of checks.\<close>

datatype value_checker = ReturnTrue | HasStringValue | HasInt64Value | HasPointValue | ReturnFalse

definition value_checkers :: "(int \<times> value_checker) list" where
  "value_checkers =
     [(NO_MEANING, ReturnTrue),
      (INDEX_VALUE, ReturnTrue),
      (BLOB, HasStringValue),
      (TEXT, HasStringValue),
      (BYTESTRING, HasStringValue),
      (ATOM_CATEGORY, HasStringValue),
      (ATOM_LINK, HasStringValue),
      (ATOM_TITLE, HasStringValue),
      (ATOM_CONTENT, HasStringValue),
      (ATOM_SUMMARY, HasStringValue),
      (ATOM_AUTHOR, HasStringValue),
      (GD_EMAIL, HasStringValue),
      (GD_IM, HasStringValue),
      (GD_PHONENUMBER, HasStringValue),
      (GD_POSTALADDRESS, HasStringValue),
      (BLOBKEY, HasStringValue),
      (ENTITY_PROTO, HasStringValue),
      (GD_WHEN, HasInt64Value),
      (GD_RATING, HasInt64Value),
      (GEORSS_POINT, HasPointValue),
      (EMPTY_LIST, ReturnTrue)]"

fun run_checker :: "value_checker \<Rightarrow> v3_property_value \<Rightarrow> bool" where
  "run_checker ReturnTrue v3_property_value = True"
| "run_checker HasStringValue v3_property_value = HasField (v3v_stringValue v3_property_value)"
| "run_checker HasInt64Value v3_property_value = HasField (v3v_int64Value v3_property_value)"
| "run_checker HasPointValue v3_property_value = HasField (v3v_pointvalue v3_property_value)"
| "run_checker ReturnFalse v3_property_value = False"

definition is_v3_property_value_meaning_valid :: "v3_property_value \<Rightarrow> int \<Rightarrow> bool" where
  "is_v3_property_value_meaning_valid v3_property_value v3_meaning =
     run_checker (case map_of value_checkers v3_meaning of
                    None \<Rightarrow> ReturnFalse
                  | Some checker \<Rightarrow> checker) v3_property_value"

text \<open>
  Modelled from the spec: the members of the legacy \<^verbatim>\<open>Property.Meaning\<close> enum, which
  the generated schema module declares. They are the meanings that the table of checks
  lists; the meaning field of a legacy property refuses any other number with
  ValueError.
\<close>

definition legacy_meaning :: "int \<Rightarrow> bool" where
  "legacy_meaning m = (m \<in> set (map fst value_checkers))"

text \<open>
  Both \<^verbatim>\<open>v3_property_to_v4_value\<close> and \<^verbatim>\<open>v3_property_to_v1_value\<close> begin alike:
  they read the meaning and the meaning URI, drop what the value does not bear out,
  and recognise a zlib value. The result is \<open>(v3_meaning, is_zlib_value)\<close>; a
  meaning of \<open>None\<close> is Python's \<^verbatim>\<open>None\<close>.
\<close>

definition v3_meaning_prologue :: "v3_property \<Rightarrow> int option \<times> bool" where
  "v3_meaning_prologue v3_property =
     (let v3_property_value = v3p_value v3_property;
          v3_meaning = Some (int_get (v3p_meaning v3_property));
          v3_uri_meaning = (if str_get (v3p_meaning_uri v3_property) \<noteq> []
                            then Some (str_get (v3p_meaning_uri v3_property)) else None);
          (v3_meaning, v3_uri_meaning) =
            (if \<not> is_v3_property_value_union_valid v3_property_value then (None, None)
             else if v3_meaning = Some NO_MEANING then (None, v3_uri_meaning)
             else if \<not> is_v3_property_value_meaning_valid v3_property_value
                         (int_get (v3p_meaning v3_property))
               then (None, v3_uri_meaning)
             else (v3_meaning, v3_uri_meaning))
      in (if v3_uri_meaning \<noteq> None \<and> v3_uri_meaning = Some URI_MEANING_ZLIB \<and>
             HasField (v3v_stringValue v3_property_value)
          then (Some BLOB, True)
          else (v3_meaning, False)))"

text \<open>Python's truth value of a meaning: \<^verbatim>\<open>None\<close> and \<open>0\<close> are false.\<close>

definition meaning_truthy :: "int option \<Rightarrow> bool" where
  "meaning_truthy m = (case m of None \<Rightarrow> False | Some i \<Rightarrow> i \<noteq> 0)"

text \<open>\<^verbatim>\<open>__v3_reference_value_to_v3_reference\<close> and its inverse copy field by field.\<close>

definition copy_path_element :: "v3_element \<Rightarrow> v3_element" where
  "copy_path_element source =
     \<lparr>v3e_type = (if HasField (v3e_type source) then Some (str_get (v3e_type source)) else None),
      v3e_id = (if HasField (v3e_id source) then Some (int_get (v3e_id source)) else None),
      v3e_name = (if HasField (v3e_name source) then Some (str_get (v3e_name source)) else None)\<rparr>"

definition v3_reference_value_to_v3_reference :: "v3_reference_value \<Rightarrow> v3_reference" where
  "v3_reference_value_to_v3_reference v3_ref_value =
     \<lparr>v3r_app = (if HasField (v3rv_app v3_ref_value)
                 then Some (str_get (v3rv_app v3_ref_value)) else None),
      v3r_name_space = (if HasField (v3rv_name_space v3_ref_value)
                        then Some (str_get (v3rv_name_space v3_ref_value)) else None),
      v3r_path = map copy_path_element (v3rv_pathelement v3_ref_value)\<rparr>"

definition v3_reference_to_v3_property_value :: "v3_reference \<Rightarrow> v3_property_value" where
  "v3_reference_to_v3_property_value v3_ref =
     v3_property_value_Clear\<lparr>v3v_referencevalue := Some
       \<lparr>v3rv_app = (if HasField (v3r_app v3_ref) then Some (str_get (v3r_app v3_ref)) else None),
        v3rv_name_space = (if HasField (v3r_name_space v3_ref)
                           then Some (str_get (v3r_name_space v3_ref)) else None),
        v3rv_pathelement = map copy_path_element (v3r_path v3_ref)\<rparr>\<rparr>"

text \<open>\<^verbatim>\<open>v3_reference_to_group\<close>: the entity group is the first element of the path.\<close>

definition v3_reference_to_group :: "v3_reference \<Rightarrow> error + v3_element list" where
  "v3_reference_to_group v3_ref =
     (if \<not> length (v3r_path v3_ref) \<ge> 1 then Inl AssertionError
      else Inr [hd (v3r_path v3_ref)])"

section \<open>The v4 value\<close>

record v4_geo_point =
  v4g_latitude :: double
  v4g_longitude :: double

text \<open>
  The fields of a v4 Value that hold no other Value are a record; the Value itself adds
  the embedded entity and the list.
\<close>

record v4_fields =
  v4v_boolean_value :: "bool option"
  v4v_integer_value :: "int option"
  v4v_double_value :: "double option"
  v4v_timestamp_microseconds_value :: "int option"
  v4v_key_value :: "v4_key option"
  v4v_blob_key_value :: "string option"
  v4v_string_value :: "string option"
  v4v_blob_value :: "string option"
  v4v_geo_point_value :: "v4_geo_point option"
  v4v_meaning :: "int option"
  v4v_indexed :: "bool option"

datatype v4_value =
  V4_Value (v4v_fields: v4_fields) (v4v_entity_value: "v4_entity option") (v4v_list_value: "v4_value list")
and v4_entity =
  V4_Entity (v4n_key: "v4_key option") (v4n_property: "(string \<times> v4_value) list")

definition v4_fields_Clear :: v4_fields where
  "v4_fields_Clear =
     \<lparr>v4v_boolean_value = None, v4v_integer_value = None, v4v_double_value = None,
      v4v_timestamp_microseconds_value = None, v4v_key_value = None,
      v4v_blob_key_value = None, v4v_string_value = None, v4v_blob_value = None,
      v4v_geo_point_value = None, v4v_meaning = None, v4v_indexed = None\<rparr>"

definition v4_value_Clear :: v4_value where
  "v4_value_Clear = V4_Value v4_fields_Clear None []"

definition v4_entity_Clear :: v4_entity where
  "v4_entity_Clear = V4_Entity None []"

text \<open>
  Modelled from the spec: the default of the optional field \<open>indexed\<close>, which the v4
  schema (the generated module entity\_v4\_pb2) declares; the spec only says that an
  unwritten flag reads as its default. The default is true: a value is indexed unless
  it says otherwise.
\<close>

definition v4v_indexed_get :: "v4_value \<Rightarrow> bool" where
  "v4v_indexed_get v4_value =
     (case v4v_indexed (v4v_fields v4_value) of None \<Rightarrow> True | Some b \<Rightarrow> b)"

definition v4v_meaning_get :: "v4_value \<Rightarrow> int" where
  "v4v_meaning_get v4_value = int_get (v4v_meaning (v4v_fields v4_value))"

text \<open>Stores into a Value: one of the plain fields, the entity, the meaning, the flag.\<close>

definition v4_set_fields :: "(v4_fields \<Rightarrow> v4_fields) \<Rightarrow> v4_value \<Rightarrow> v4_value" where
  "v4_set_fields f v4_value =
     V4_Value (f (v4v_fields v4_value)) (v4v_entity_value v4_value) (v4v_list_value v4_value)"

definition v4_set_entity_value :: "v4_entity \<Rightarrow> v4_value \<Rightarrow> v4_value" where
  "v4_set_entity_value v4_entity v4_value =
     V4_Value (v4v_fields v4_value) (Some v4_entity) (v4v_list_value v4_value)"

definition v4_set_meaning :: "int \<Rightarrow> v4_value \<Rightarrow> v4_value" where
  "v4_set_meaning m = v4_set_fields (\<lambda>f. f\<lparr>v4v_meaning := Some m\<rparr>)"

definition v4_set_indexed :: "bool \<Rightarrow> v4_value \<Rightarrow> v4_value" where
  "v4_set_indexed b = v4_set_fields (\<lambda>f. f\<lparr>v4v_indexed := Some b\<rparr>)"

text \<open>The single-valued property constructors: the flag is written, then the value.\<close>

definition v4_integer_property :: "string \<Rightarrow> int \<Rightarrow> bool \<Rightarrow> string \<times> v4_value" where
  "v4_integer_property name value indexed =
     (name, v4_set_fields (\<lambda>f. f\<lparr>v4v_integer_value := Some value\<rparr>)
              (v4_set_indexed indexed v4_value_Clear))"

definition v4_double_property :: "string \<Rightarrow> double \<Rightarrow> bool \<Rightarrow> string \<times> v4_value" where
  "v4_double_property name value indexed =
     (name, v4_set_fields (\<lambda>f. f\<lparr>v4v_double_value := Some value\<rparr>)
              (v4_set_indexed indexed v4_value_Clear))"

definition v4_string_property :: "string \<Rightarrow> string \<Rightarrow> bool \<Rightarrow> string \<times> v4_value" where
  "v4_string_property name value indexed =
     (name, v4_set_fields (\<lambda>f. f\<lparr>v4v_string_value := Some value\<rparr>)
              (v4_set_indexed indexed v4_value_Clear))"

text \<open>The getters check that the slot is populated.\<close>

definition get_v4_integer_value :: "string \<times> v4_value \<Rightarrow> error + int" where
  "get_v4_integer_value v4_property =
     (case check_conversion (HasField (v4v_integer_value (v4v_fields (snd v4_property))))
             ''Property does not contain an integer value.'' of
        Inl e \<Rightarrow> Inl e
      | Inr _ \<Rightarrow> Inr (int_get (v4v_integer_value (v4v_fields (snd v4_property)))))"

definition get_v4_double_value :: "string \<times> v4_value \<Rightarrow> error + double" where
  "get_v4_double_value v4_property =
     (case check_conversion (HasField (v4v_double_value (v4v_fields (snd v4_property))))
             ''Property does not contain a double value.'' of
        Inl e \<Rightarrow> Inl e
      | Inr _ \<Rightarrow> Inr (case v4v_double_value (v4v_fields (snd v4_property)) of
                        None \<Rightarrow> 0 | Some d \<Rightarrow> d))"

definition get_v4_string_value :: "string \<times> v4_value \<Rightarrow> error + string" where
  "get_v4_string_value v4_property =
     (case check_conversion (HasField (v4v_string_value (v4v_fields (snd v4_property))))
             ''Property does not contain a string value.'' of
        Inl e \<Rightarrow> Inl e
      | Inr _ \<Rightarrow> Inr (str_get (v4v_string_value (v4v_fields (snd v4_property)))))"

text \<open>
  \<^verbatim>\<open>__build_name_to_v4_property_map\<close> fills a dict in the order of the list, so a later
  property of the same name replaces an earlier one. Subscripting the dict with a
  missing name raises KeyError.
\<close>

definition build_name_to_v4_property_map :: "v4_entity \<Rightarrow> (string \<rightharpoonup> string \<times> v4_value)" where
  "build_name_to_v4_property_map v4_entity =
     foldl (\<lambda>property_map prop. property_map(fst prop \<mapsto> prop)) Map.empty (v4n_property v4_entity)"

definition subscript :: "(string \<rightharpoonup> 'a) \<Rightarrow> string \<Rightarrow> error + 'a" where
  "subscript d k = (case d k of None \<Rightarrow> Inl (KeyError k) | Some v \<Rightarrow> Inr v)"

subsection \<open>Embedded points and users (v4)\<close>

definition v4_to_v3_point_value :: "v4_entity \<Rightarrow> error + v3_point_value" where
  "v4_to_v3_point_value v4_point_entity =
     (let name_to_v4_property = build_name_to_v4_property_map v4_point_entity in
      (case subscript name_to_v4_property ''x'' of Inl e \<Rightarrow> Inl e | Inr px \<Rightarrow>
      (case get_v4_double_value px of Inl e \<Rightarrow> Inl e | Inr x \<Rightarrow>
      (case subscript name_to_v4_property ''y'' of Inl e \<Rightarrow> Inl e | Inr py \<Rightarrow>
      (case get_v4_double_value py of Inl e \<Rightarrow> Inl e | Inr y \<Rightarrow>
       Inr \<lparr>v3pt_x = x, v3pt_y = y\<rparr>)))))"

definition v3_to_v4_point_entity :: "v3_point_value \<Rightarrow> v4_entity" where
  "v3_to_v4_point_entity v3_point_value =
     V4_Entity None
       ([] @ [v4_double_property PROPERTY_NAME_X (v3pt_x v3_point_value) False]
           @ [v4_double_property PROPERTY_NAME_Y (v3pt_y v3_point_value) False])"

text \<open>
  An optional field of the user is decoded when its name is in the dict; the gaia id is
  written in either case.
\<close>

definition optional_v4_string ::
  "(string \<rightharpoonup> string \<times> v4_value) \<Rightarrow> string \<Rightarrow> error + string option" where
  "optional_v4_string name_to_v4_property name =
     (if name_to_v4_property name \<noteq> None then
        (case subscript name_to_v4_property name of Inl e \<Rightarrow> Inl e | Inr p \<Rightarrow>
        (case get_v4_string_value p of Inl e \<Rightarrow> Inl e | Inr s \<Rightarrow> Inr (Some s)))
      else Inr None)"

definition optional_v4_integer ::
  "(string \<rightharpoonup> string \<times> v4_value) \<Rightarrow> string \<Rightarrow> int \<Rightarrow> error + int" where
  "optional_v4_integer name_to_v4_property name otherwise =
     (if name_to_v4_property name \<noteq> None then
        (case subscript name_to_v4_property name of Inl e \<Rightarrow> Inl e | Inr p \<Rightarrow>
           get_v4_integer_value p)
      else Inr otherwise)"

definition v4_entity_to_v3_user_value :: "v4_entity \<Rightarrow> error + v3_user_value" where
  "v4_entity_to_v3_user_value v4_user_entity =
     (let name_to_v4_property = build_name_to_v4_property_map v4_user_entity in
      (case subscript name_to_v4_property PROPERTY_NAME_EMAIL of Inl e \<Rightarrow> Inl e | Inr p_email \<Rightarrow>
      (case get_v4_string_value p_email of Inl e \<Rightarrow> Inl e | Inr email \<Rightarrow>
      (case subscript name_to_v4_property PROPERTY_NAME_AUTH_DOMAIN of Inl e \<Rightarrow> Inl e | Inr p_auth \<Rightarrow>
      (case get_v4_string_value p_auth of Inl e \<Rightarrow> Inl e | Inr auth_domain \<Rightarrow>
      (case optional_v4_string name_to_v4_property PROPERTY_NAME_USER_ID of
         Inl e \<Rightarrow> Inl e | Inr obfuscated_gaiaid \<Rightarrow>
      (case optional_v4_integer name_to_v4_property PROPERTY_NAME_INTERNAL_ID 0 of
         Inl e \<Rightarrow> Inl e | Inr gaiaid \<Rightarrow>
      (case optional_v4_string name_to_v4_property PROPERTY_NAME_FEDERATED_IDENTITY of
         Inl e \<Rightarrow> Inl e | Inr federated_identity \<Rightarrow>
      (case optional_v4_string name_to_v4_property PROPERTY_NAME_FEDERATED_PROVIDER of
         Inl e \<Rightarrow> Inl e | Inr federated_provider \<Rightarrow>
       Inr \<lparr>v3u_email = email, v3u_auth_domain = auth_domain, v3u_gaiaid = gaiaid,
            v3u_obfuscated_gaiaid = obfuscated_gaiaid,
            v3u_federated_identity = federated_identity,
            v3u_federated_provider = federated_provider\<rparr>)))))))))"

definition v3_user_value_to_v4_entity :: "v3_user_value \<Rightarrow> v4_entity" where
  "v3_user_value_to_v4_entity v3_user_value =
     V4_Entity None
       ([v4_string_property PROPERTY_NAME_EMAIL (v3u_email v3_user_value) False,
         v4_string_property PROPERTY_NAME_AUTH_DOMAIN (v3u_auth_domain v3_user_value) False]
        @ (if v3u_gaiaid v3_user_value \<noteq> 0
           then [v4_integer_property PROPERTY_NAME_INTERNAL_ID (v3u_gaiaid v3_user_value) False]
           else [])
        @ (if HasField (v3u_obfuscated_gaiaid v3_user_value)
           then [v4_string_property PROPERTY_NAME_USER_ID
                   (str_get (v3u_obfuscated_gaiaid v3_user_value)) False]
           else [])
        @ (if HasField (v3u_federated_identity v3_user_value)
           then [v4_string_property PROPERTY_NAME_FEDERATED_IDENTITY
                   (str_get (v3u_federated_identity v3_user_value)) False]
           else [])
        @ (if HasField (v3u_federated_provider v3_user_value)
           then [v4_string_property PROPERTY_NAME_FEDERATED_PROVIDER
                   (str_get (v3u_federated_provider v3_user_value)) False]
           else []))"

subsection \<open>Legacy property to v4 value\<close>

text \<open>
  A legacy string value that is a serialized entity is parsed by the protocol buffer
  runtime and converted by \<^verbatim>\<open>v3_to_v4_entity\<close>; the serialized form is outside the
  model, so the converter takes the two steps together as its parameter \<open>embedded\<close>,
  which fails where either step raises.

  The body of the conversion returns the value and the meaning left to record.
\<close>

definition v3_value_body_to_v4 ::
  "(string \<Rightarrow> error + v4_entity) \<Rightarrow> v3_property_value \<Rightarrow> bool \<Rightarrow> int option \<Rightarrow>
     error + v4_value \<times> int option" where
  "v3_value_body_to_v4 embedded v3_property_value indexed v3_meaning =
     (let v4_value = v4_value_Clear in
      case v3v_booleanValue v3_property_value of
        Some b \<Rightarrow> Inr (v4_set_fields (\<lambda>f. f\<lparr>v4v_boolean_value := Some b\<rparr>) v4_value, v3_meaning)
      | None \<Rightarrow>
      (case v3v_int64Value v3_property_value of
        Some i \<Rightarrow>
          (if v3_meaning = Some GD_WHEN
           then Inr (v4_set_fields (\<lambda>f. f\<lparr>v4v_timestamp_microseconds_value := Some i\<rparr>) v4_value, None)
           else Inr (v4_set_fields (\<lambda>f. f\<lparr>v4v_integer_value := Some i\<rparr>) v4_value, v3_meaning))
      | None \<Rightarrow>
      (case v3v_doubleValue v3_property_value of
        Some d \<Rightarrow> Inr (v4_set_fields (\<lambda>f. f\<lparr>v4v_double_value := Some d\<rparr>) v4_value, v3_meaning)
      | None \<Rightarrow>
      (case v3v_referencevalue v3_property_value of
        Some rv \<Rightarrow>
          (let v3_ref = v3_reference_value_to_v3_reference rv
           in Inr (v4_set_fields (\<lambda>f. f\<lparr>v4v_key_value := Some (v3_to_v4_key v3_ref)\<rparr>) v4_value,
                   v3_meaning))
      | None \<Rightarrow>
      (case v3v_stringValue v3_property_value of
        Some string_value \<Rightarrow>
          (if v3_meaning = Some ENTITY_PROTO then
             (case embedded string_value of
                Inl e \<Rightarrow> Inl e
              | Inr v4_entity \<Rightarrow> Inr (v4_set_entity_value v4_entity v4_value, None))
           else if v3_meaning = Some BLOB \<or> v3_meaning = Some BYTESTRING then
             Inr (v4_set_fields (\<lambda>f. f\<lparr>v4v_blob_value := Some string_value\<rparr>) v4_value,
                  if indexed \<or> v3_meaning = Some BLOB then None else v3_meaning)
           else if is_valid_utf8 string_value then
             (if v3_meaning = Some BLOBKEY
              then Inr (v4_set_fields (\<lambda>f. f\<lparr>v4v_blob_key_value := Some string_value\<rparr>) v4_value, None)
              else Inr (v4_set_fields (\<lambda>f. f\<lparr>v4v_string_value := Some string_value\<rparr>) v4_value,
                        v3_meaning))
           else
             Inr (v4_set_fields (\<lambda>f. f\<lparr>v4v_blob_value := Some string_value\<rparr>) v4_value,
                  if v3_meaning \<noteq> Some INDEX_VALUE then None else v3_meaning))
      | None \<Rightarrow>
      (case v3v_pointvalue v3_property_value of
        Some point_value \<Rightarrow>
          (if v3_meaning = Some MEANING_GEORSS_POINT then
             Inr (v4_set_fields (\<lambda>f. f\<lparr>v4v_geo_point_value := Some
                    \<lparr>v4g_latitude = v3pt_x point_value, v4g_longitude = v3pt_y point_value\<rparr>\<rparr>)
                    v4_value, None)
           else
             Inr (v4_set_meaning MEANING_PREDEFINED_ENTITY_POINT
                    (v4_set_entity_value (v3_to_v4_point_entity point_value) v4_value), None))
      | None \<Rightarrow>
      (case v3v_uservalue v3_property_value of
        Some user_value \<Rightarrow>
          Inr (v4_set_meaning MEANING_PREDEFINED_ENTITY_USER
                 (v4_set_entity_value (v3_user_value_to_v4_entity user_value) v4_value), None)
      | None \<Rightarrow> Inr (v4_value, v3_meaning))))))))"

definition v3_property_to_v4_value ::
  "(string \<Rightarrow> error + v4_entity) \<Rightarrow> v3_property \<Rightarrow> bool \<Rightarrow> error + v4_value" where
  "v3_property_to_v4_value embedded v3_property indexed =
     (let (v3_meaning, is_zlib_value) = v3_meaning_prologue v3_property in
      case v3_value_body_to_v4 embedded (v3p_value v3_property) indexed v3_meaning of
        Inl e \<Rightarrow> Inl e
      | Inr (v4_value, v3_meaning) \<Rightarrow>
          (let v4_value = (if is_zlib_value then v4_set_meaning MEANING_ZLIB v4_value
                           else if meaning_truthy v3_meaning
                             then v4_set_meaning (int_get v3_meaning) v4_value
                           else v4_value);
               v4_value = (if indexed \<noteq> v4v_indexed_get v4_value
                           then v4_set_indexed indexed v4_value
                           else v4_value)
           in Inr v4_value))"

subsection \<open>v4 value to legacy property\<close>

text \<open>
  An embedded entity that is neither a point nor a user is converted by
  \<^verbatim>\<open>v4_to_v3_entity\<close> and serialized by the runtime; the converter takes the two steps
  together as its parameter \<open>serialized\<close>. A blob key is text, and the branch for
  it stores the text into the legacy string value as it is, where the branch for a
  string encodes it first: the bytes field refuses the text with TypeError.
\<close>

definition v4_value_to_v3_property_value ::
  "(v4_entity \<Rightarrow> error + string) \<Rightarrow> v4_value \<Rightarrow> error + v3_property_value" where
  "v4_value_to_v3_property_value serialized v4_value =
     (let v3_value = v3_property_value_Clear; f = v4v_fields v4_value in
      case v4v_boolean_value f of
        Some b \<Rightarrow> Inr (v3_value\<lparr>v3v_booleanValue := Some b\<rparr>)
      | None \<Rightarrow>
      (case v4v_integer_value f of
        Some i \<Rightarrow> Inr (v3_value\<lparr>v3v_int64Value := Some i\<rparr>)
      | None \<Rightarrow>
      (case v4v_double_value f of
        Some d \<Rightarrow> Inr (v3_value\<lparr>v3v_doubleValue := Some d\<rparr>)
      | None \<Rightarrow>
      (case v4v_timestamp_microseconds_value f of
        Some t \<Rightarrow> Inr (v3_value\<lparr>v3v_int64Value := Some t\<rparr>)
      | None \<Rightarrow>
      (case v4v_key_value f of
        Some k \<Rightarrow> Inr (v3_reference_to_v3_property_value (v4_to_v3_reference k))
      | None \<Rightarrow>
      (case v4v_blob_key_value f of
        Some s \<Rightarrow> Inl TypeError
      | None \<Rightarrow>
      (case v4v_string_value f of
        Some s \<Rightarrow> Inr (v3_value\<lparr>v3v_stringValue := Some (encode_utf8 s)\<rparr>)
      | None \<Rightarrow>
      (case v4v_blob_value f of
        Some s \<Rightarrow> Inr (v3_value\<lparr>v3v_stringValue := Some s\<rparr>)
      | None \<Rightarrow>
      (case v4v_entity_value v4_value of
        Some v4_entity_value \<Rightarrow>
          (let v4_meaning = v4v_meaning_get v4_value in
           if v4_meaning = MEANING_GEORSS_POINT \<or> v4_meaning = MEANING_PREDEFINED_ENTITY_POINT then
             (case v4_to_v3_point_value v4_entity_value of
                Inl e \<Rightarrow> Inl e
              | Inr p \<Rightarrow> Inr (v3_value\<lparr>v3v_pointvalue := Some p\<rparr>))
           else if v4_meaning = MEANING_PREDEFINED_ENTITY_USER then
             (case v4_entity_to_v3_user_value v4_entity_value of
                Inl e \<Rightarrow> Inl e
              | Inr u \<Rightarrow> Inr (v3_value\<lparr>v3v_uservalue := Some u\<rparr>))
           else
             (case serialized v4_entity_value of
                Inl e \<Rightarrow> Inl e
              | Inr s \<Rightarrow> Inr (v3_value\<lparr>v3v_stringValue := Some s\<rparr>)))
      | None \<Rightarrow>
      (case v4v_geo_point_value f of
        Some g \<Rightarrow> Inr (v3_value\<lparr>v3v_pointvalue := Some
                        \<lparr>v3pt_x = v4g_latitude g, v3pt_y = v4g_longitude g\<rparr>\<rparr>)
      | None \<Rightarrow> Inr v3_value))))))))))"

text \<open>
  The meaning of the legacy property: the branch taken gives \<open>(v3_property, v4_meaning)\<close>,
  where a \<open>v4_meaning\<close> that is left is stored last, and refused with ValueError when
  the legacy enum does not have it.
\<close>

definition v4_to_v3_property ::
  "(v4_entity \<Rightarrow> error + string) \<Rightarrow> string \<Rightarrow> bool \<Rightarrow> bool \<Rightarrow> v4_value \<Rightarrow> error + v3_property" where
  "v4_to_v3_property serialized property_name is_multi is_projection v4_value =
     (if v4v_list_value v4_value \<noteq> [] then Inl AssertionError
      else let v3_property = v3_property_Clear\<lparr>v3p_name := property_name\<rparr>;
               f = v4v_fields v4_value in
      if HasField (v4v_meaning f) \<and> v4v_meaning_get v4_value = MEANING_EMPTY_LIST then
        Inr (v3_property\<lparr>v3p_meaning := Some MEANING_EMPTY_LIST, v3p_multiple := False,
                         v3p_value := v3_property_value_Clear\<rparr>)
      else
      case v4_value_to_v3_property_value serialized v4_value of
        Inl e \<Rightarrow> Inl e
      | Inr v3_value \<Rightarrow>
          (let v3_property = v3_property\<lparr>v3p_multiple := is_multi, v3p_value := v3_value\<rparr>;
               v4_meaning = (if HasField (v4v_meaning f) then Some (v4v_meaning_get v4_value) else None);
               (v3_property, v4_meaning) =
                 (if HasField (v4v_timestamp_microseconds_value f) then
                    (v3_property\<lparr>v3p_meaning := Some GD_WHEN\<rparr>, v4_meaning)
                  else if HasField (v4v_blob_key_value f) then
                    (v3_property\<lparr>v3p_meaning := Some BLOBKEY\<rparr>, v4_meaning)
                  else if HasField (v4v_blob_value f) then
                    (let v3_property = (if v4_meaning = Some MEANING_ZLIB
                                        then v3_property\<lparr>v3p_meaning_uri := Some URI_MEANING_ZLIB\<rparr>
                                        else v3_property)
                     in if v4_meaning = Some BYTESTRING then (v3_property, v4_meaning)
                        else (if v4v_indexed_get v4_value
                              then v3_property\<lparr>v3p_meaning := Some BYTESTRING\<rparr>
                              else v3_property\<lparr>v3p_meaning := Some BLOB\<rparr>, None))
                  else if HasField (v4v_entity_value v4_value) then
                    (if v4_meaning \<noteq> Some MEANING_GEORSS_POINT then
                       (if v4_meaning \<noteq> Some MEANING_PREDEFINED_ENTITY_POINT \<and>
                           v4_meaning \<noteq> Some MEANING_PREDEFINED_ENTITY_USER
                        then v3_property\<lparr>v3p_meaning := Some ENTITY_PROTO\<rparr>
                        else v3_property, None)
                     else (v3_property, v4_meaning))
                  else if HasField (v4v_geo_point_value f) then
                    (v3_property\<lparr>v3p_meaning := Some MEANING_GEORSS_POINT\<rparr>, v4_meaning)
                  else (v3_property, v4_meaning))
           in if v4_meaning \<noteq> None \<and> \<not> legacy_meaning (int_get v4_meaning)
              then Inl ValueError
              else
                (let v3_property = (if v4_meaning \<noteq> None
                                    then v3_property\<lparr>v3p_meaning := v4_meaning\<rparr>
                                    else v3_property);
                     v3_property = (if is_projection
                                    then v3_property\<lparr>v3p_meaning := Some INDEX_VALUE\<rparr>
                                    else v3_property)
                 in Inr v3_property)))"

subsection \<open>Entities (v4)\<close>

text \<open>A loop whose body may raise stops at the first error.\<close>

fun for_each :: "('a \<Rightarrow> 's \<Rightarrow> error + 's) \<Rightarrow> 'a list \<Rightarrow> 's \<Rightarrow> error + 's" where
  "for_each body [] s = Inr s"
| "for_each body (x # xs) s =
     (case body x s of Inl e \<Rightarrow> Inl e | Inr s' \<Rightarrow> for_each body xs s')"

definition add_v3_property_from_v4 ::
  "(v4_entity \<Rightarrow> error + string) \<Rightarrow> string \<Rightarrow> bool \<Rightarrow> bool \<Rightarrow> v4_value \<Rightarrow>
     v3_entity_proto \<Rightarrow> error + v3_entity_proto" where
  "add_v3_property_from_v4 serialized property_name is_multi is_projection v4_value v3_entity =
     (case v4_to_v3_property serialized property_name is_multi is_projection v4_value of
        Inl e \<Rightarrow> Inl e
      | Inr prop \<Rightarrow>
          (if v4v_indexed_get v4_value
           then Inr (v3_entity\<lparr>v3n_property := v3n_property v3_entity @ [prop]\<rparr>)
           else Inr (v3_entity\<lparr>v3n_raw_property := v3n_raw_property v3_entity @ [prop]\<rparr>)))"

definition v4_to_v3_entity ::
  "(v4_entity \<Rightarrow> error + string) \<Rightarrow> v4_entity \<Rightarrow> bool \<Rightarrow> error + v3_entity_proto" where
  "v4_to_v3_entity serialized v4_entity is_projection =
     (case for_each
             (\<lambda>v4_property v3_entity.
                let property_name = fst v4_property; v4_value = snd v4_property in
                if v4v_list_value v4_value \<noteq> [] then
                  for_each (\<lambda>v4_sub_value.
                      add_v3_property_from_v4 serialized property_name True is_projection v4_sub_value)
                    (v4v_list_value v4_value) v3_entity
                else
                  add_v3_property_from_v4 serialized property_name False is_projection v4_value
                    v3_entity)
             (v4n_property v4_entity) v3_entity_proto_Clear of
        Inl e \<Rightarrow> Inl e
      | Inr v3_entity \<Rightarrow>
          (case v4n_key v4_entity of
             Some v4_key \<Rightarrow>
               (let v3_ref = v4_to_v3_reference v4_key in
                case v3_reference_to_group v3_ref of
                  Inl e \<Rightarrow> Inl e
                | Inr g \<Rightarrow> Inr (v3_entity\<lparr>v3n_key := Some v3_ref, v3n_entity_group := g\<rparr>))
           | None \<Rightarrow> Inr v3_entity))"

text \<open>
  \<^verbatim>\<open>__add_v4_property_to_entity\<close>: the dict of the properties already added names the
  properties of the entity under construction, whose names are distinct. A value that
  is one of several is appended to the list of the property's value; a single value
  replaces the property's value.
\<close>

definition v4_update_property ::
  "string \<Rightarrow> (v4_value \<Rightarrow> v4_value) \<Rightarrow> (string \<times> v4_value) list \<Rightarrow> (string \<times> v4_value) list" where
  "v4_update_property property_name g props =
     map (\<lambda>prop. if fst prop = property_name then (fst prop, g (snd prop)) else prop) props"

definition add_v4_property_to_entity ::
  "(string \<Rightarrow> error + v4_entity) \<Rightarrow> v3_property \<Rightarrow> bool \<Rightarrow> v4_entity \<Rightarrow> error + v4_entity" where
  "add_v4_property_to_entity embedded v3_property indexed v4_entity =
     (let property_name = v3p_name v3_property;
          props = (if property_name \<in> fst ` set (v4n_property v4_entity)
                   then v4n_property v4_entity
                   else v4n_property v4_entity @ [(property_name, v4_value_Clear)])
      in case v3_property_to_v4_value embedded v3_property indexed of
           Inl e \<Rightarrow> Inl e
         | Inr v4_value \<Rightarrow>
             (if v3p_multiple v3_property
              then Inr (V4_Entity (v4n_key v4_entity)
                     (v4_update_property property_name
                        (\<lambda>old. V4_Value (v4v_fields old) (v4v_entity_value old)
                                  (v4v_list_value old @ [v4_value])) props))
              else Inr (V4_Entity (v4n_key v4_entity)
                     (v4_update_property property_name (\<lambda>old. v4_value) props))))"

definition v3_to_v4_entity ::
  "(string \<Rightarrow> error + v4_entity) \<Rightarrow> v3_entity_proto \<Rightarrow> error + v4_entity" where
  "v3_to_v4_entity embedded v3_entity =
     (let v4_entity = V4_Entity
            (if HasField (v3r_app (v3n_key_get v3_entity))
             then Some (v3_to_v4_key (v3n_key_get v3_entity)) else None) []
      in case for_each (\<lambda>v3_property. add_v4_property_to_entity embedded v3_property True)
                (v3n_property v3_entity) v4_entity of
           Inl e \<Rightarrow> Inl e
         | Inr v4_entity \<Rightarrow>
             for_each (\<lambda>v3_property. add_v4_property_to_entity embedded v3_property False)
               (v3n_raw_property v3_entity) v4_entity)"

text \<open>
  The two parameters, tied to the converters themselves. From legacy to v4 the
  serialized entity is parsed with \<^verbatim>\<open>ParsePartialFromString\<close>, a method that the
  messages of the runtime do not have: the call raises AttributeError, whatever the
  bytes. From v4 to legacy \<open>serialize\<close> is the runtime's
  \<^verbatim>\<open>SerializePartialToString\<close>; the nesting of the calls is bounded by the
  interpreter's recursion limit, here \<open>depth\<close>.
\<close>

definition v3_to_v4_entity_nested :: "v3_entity_proto \<Rightarrow> error + v4_entity" where
  "v3_to_v4_entity_nested v3_entity =
     v3_to_v4_entity (\<lambda>serialized_entity_v3. Inl AttributeError) v3_entity"

fun v4_to_v3_entity_nested ::
  "nat \<Rightarrow> (v3_entity_proto \<Rightarrow> string) \<Rightarrow> v4_entity \<Rightarrow> bool \<Rightarrow> error + v3_entity_proto" where
  "v4_to_v3_entity_nested 0 serialize v4_entity is_projection =
     v4_to_v3_entity (\<lambda>v4_entity_value. Inl RecursionError) v4_entity is_projection"
| "v4_to_v3_entity_nested (Suc depth) serialize v4_entity is_projection =
     v4_to_v3_entity
       (\<lambda>v4_entity_value.
          case v4_to_v3_entity_nested depth serialize v4_entity_value False of
            Inl e \<Rightarrow> Inl e
          | Inr v3_entity_value \<Rightarrow> Inr (serialize v3_entity_value))
       v4_entity is_projection"

section \<open>The v1 value\<close>

record v1_lat_lng =
  v1g_latitude :: double
  v1g_longitude :: double

text \<open>
  A v1 Value (proto3) holds a meaning, the flag \<open>exclude_from_indexes\<close> and one member
  of the \<^verbatim>\<open>oneof value_type\<close>. A timestamp is kept as the microseconds that
  \<^verbatim>\<open>googledatastore.helper.micros_to_timestamp\<close> stores and
  \<^verbatim>\<open>micros_from_timestamp\<close> reads back. The properties of an entity are a map with
  string keys, kept as a list of pairs with distinct names. The runtime does not say in
  which order it iterates a map; the model iterates in the order of the list.
\<close>

datatype v1_value_type =
    Value_type_unset
  | Null_value
  | Boolean_value bool
  | Integer_value int
  | Double_value double
  | Timestamp_value int
  | Key_value v1_key
  | String_value string
  | Blob_value string
  | Geo_point_value v1_lat_lng
  | Entity_value v1_entity
  | Array_value "v1_value list"
and v1_value =
  V1_Value (v1v_meaning: int) (v1v_exclude_from_indexes: bool) (v1v_value_type: v1_value_type)
and v1_entity =
  V1_Entity (v1n_key: "v1_key option") (v1n_properties: "(string \<times> v1_value) list")

definition v1_value_Clear :: v1_value where
  "v1_value_Clear = V1_Value 0 False Value_type_unset"

definition v1_entity_Clear :: v1_entity where
  "v1_entity_Clear = V1_Entity None []"

definition v1_set_meaning :: "int \<Rightarrow> v1_value \<Rightarrow> v1_value" where
  "v1_set_meaning m v1_value =
     V1_Value m (v1v_exclude_from_indexes v1_value) (v1v_value_type v1_value)"

definition v1_set_exclude_from_indexes :: "bool \<Rightarrow> v1_value \<Rightarrow> v1_value" where
  "v1_set_exclude_from_indexes b v1_value =
     V1_Value (v1v_meaning v1_value) b (v1v_value_type v1_value)"

definition v1_set_value_type :: "v1_value_type \<Rightarrow> v1_value \<Rightarrow> v1_value" where
  "v1_set_value_type t v1_value =
     V1_Value (v1v_meaning v1_value) (v1v_exclude_from_indexes v1_value) t"

text \<open>
  Subscripting the map of a message with a name it does not hold adds an empty Value
  under that name and gives it; \<^verbatim>\<open>name in properties\<close> asks without adding.
\<close>

definition v1_properties_get :: "(string \<times> v1_value) list \<Rightarrow> string \<Rightarrow> v1_value" where
  "v1_properties_get properties name =
     (case map_of properties name of None \<Rightarrow> v1_value_Clear | Some v \<Rightarrow> v)"

definition v1_properties_contains :: "(string \<times> v1_value) list \<Rightarrow> string \<Rightarrow> bool" where
  "v1_properties_contains properties name = (map_of properties name \<noteq> None)"

definition v1_properties_modify ::
  "string \<Rightarrow> (v1_value \<Rightarrow> v1_value) \<Rightarrow> (string \<times> v1_value) list \<Rightarrow> (string \<times> v1_value) list" where
  "v1_properties_modify name g properties =
     (if v1_properties_contains properties name
      then map (\<lambda>entry. if fst entry = name then (fst entry, g (snd entry)) else entry) properties
      else properties @ [(name, g v1_value_Clear)])"

definition get_v1_integer_value :: "v1_value \<Rightarrow> error + int" where
  "get_v1_integer_value v1_value =
     (case check_conversion
             (case v1v_value_type v1_value of Integer_value i \<Rightarrow> True | _ \<Rightarrow> False)
             ''Value does not contain an integer value.'' of
        Inl e \<Rightarrow> Inl e
      | Inr _ \<Rightarrow> Inr (case v1v_value_type v1_value of Integer_value i \<Rightarrow> i | _ \<Rightarrow> 0))"

definition get_v1_double_value :: "v1_value \<Rightarrow> error + double" where
  "get_v1_double_value v1_value =
     (case check_conversion
             (case v1v_value_type v1_value of Double_value d \<Rightarrow> True | _ \<Rightarrow> False)
             ''Value does not contain a double value.'' of
        Inl e \<Rightarrow> Inl e
      | Inr _ \<Rightarrow> Inr (case v1v_value_type v1_value of Double_value d \<Rightarrow> d | _ \<Rightarrow> 0))"

definition get_v1_string_value :: "v1_value \<Rightarrow> error + string" where
  "get_v1_string_value v1_value =
     (case check_conversion
             (case v1v_value_type v1_value of String_value s \<Rightarrow> True | _ \<Rightarrow> False)
             ''Value does not contain a string value.'' of
        Inl e \<Rightarrow> Inl e
      | Inr _ \<Rightarrow> Inr (encode_utf8
                       (case v1v_value_type v1_value of String_value s \<Rightarrow> s | _ \<Rightarrow> [])))"

definition v1_integer_property :: "v1_entity \<Rightarrow> string \<Rightarrow> int \<Rightarrow> bool \<Rightarrow> v1_entity" where
  "v1_integer_property entity name value indexed =
     V1_Entity (v1n_key entity)
       (v1_properties_modify name
          (\<lambda>v1_value. v1_set_value_type (Integer_value value)
                         (v1_set_exclude_from_indexes (\<not> indexed) v1_value))
          (v1n_properties entity))"

definition v1_double_property :: "v1_entity \<Rightarrow> string \<Rightarrow> double \<Rightarrow> bool \<Rightarrow> v1_entity" where
  "v1_double_property entity name value indexed =
     V1_Entity (v1n_key entity)
       (v1_properties_modify name
          (\<lambda>v1_value. v1_set_value_type (Double_value value)
                         (v1_set_exclude_from_indexes (\<not> indexed) v1_value))
          (v1n_properties entity))"

definition v1_string_property :: "v1_entity \<Rightarrow> string \<Rightarrow> string \<Rightarrow> bool \<Rightarrow> v1_entity" where
  "v1_string_property entity name value indexed =
     V1_Entity (v1n_key entity)
       (v1_properties_modify name
          (\<lambda>v1_value. v1_set_value_type (String_value value)
                         (v1_set_exclude_from_indexes (\<not> indexed) v1_value))
          (v1n_properties entity))"

subsection \<open>Embedded users (v1)\<close>

definition optional_v1_string :: "(string \<times> v1_value) list \<Rightarrow> string \<Rightarrow> error + string option" where
  "optional_v1_string properties name =
     (if v1_properties_contains properties name then
        (case get_v1_string_value (v1_properties_get properties name) of
           Inl e \<Rightarrow> Inl e | Inr s \<Rightarrow> Inr (Some s))
      else Inr None)"

definition optional_v1_integer :: "(string \<times> v1_value) list \<Rightarrow> string \<Rightarrow> int \<Rightarrow> error + int" where
  "optional_v1_integer properties name otherwise =
     (if v1_properties_contains properties name
      then get_v1_integer_value (v1_properties_get properties name)
      else Inr otherwise)"

definition v1_entity_to_v3_user_value :: "v1_entity \<Rightarrow> error + v3_user_value" where
  "v1_entity_to_v3_user_value v1_user_entity =
     (let properties = v1n_properties v1_user_entity in
      (case get_v1_string_value (v1_properties_get properties PROPERTY_NAME_EMAIL) of
         Inl e \<Rightarrow> Inl e | Inr email \<Rightarrow>
      (case get_v1_string_value (v1_properties_get properties PROPERTY_NAME_AUTH_DOMAIN) of
         Inl e \<Rightarrow> Inl e | Inr auth_domain \<Rightarrow>
      (case optional_v1_string properties PROPERTY_NAME_USER_ID of
         Inl e \<Rightarrow> Inl e | Inr obfuscated_gaiaid \<Rightarrow>
      (case optional_v1_integer properties PROPERTY_NAME_INTERNAL_ID 0 of
         Inl e \<Rightarrow> Inl e | Inr gaiaid \<Rightarrow>
      (case optional_v1_string properties PROPERTY_NAME_FEDERATED_IDENTITY of
         Inl e \<Rightarrow> Inl e | Inr federated_identity \<Rightarrow>
      (case optional_v1_string properties PROPERTY_NAME_FEDERATED_PROVIDER of
         Inl e \<Rightarrow> Inl e | Inr federated_provider \<Rightarrow>
       Inr \<lparr>v3u_email = email, v3u_auth_domain = auth_domain, v3u_gaiaid = gaiaid,
            v3u_obfuscated_gaiaid = obfuscated_gaiaid,
            v3u_federated_identity = federated_identity,
            v3u_federated_provider = federated_provider\<rparr>)))))))"

definition v3_user_value_to_v1_entity :: "v3_user_value \<Rightarrow> v1_entity" where
  "v3_user_value_to_v1_entity v3_user_value =
     (let v1_entity = v1_entity_Clear;
          v1_entity = v1_string_property v1_entity PROPERTY_NAME_EMAIL
                        (v3u_email v3_user_value) False;
          v1_entity = v1_string_property v1_entity PROPERTY_NAME_AUTH_DOMAIN
                        (v3u_auth_domain v3_user_value) False;
          v1_entity = (if v3u_gaiaid v3_user_value \<noteq> 0
                       then v1_integer_property v1_entity PROPERTY_NAME_INTERNAL_ID
                              (v3u_gaiaid v3_user_value) False
                       else v1_entity);
          v1_entity = (if HasField (v3u_obfuscated_gaiaid v3_user_value)
                       then v1_string_property v1_entity PROPERTY_NAME_USER_ID
                              (str_get (v3u_obfuscated_gaiaid v3_user_value)) False
                       else v1_entity);
          v1_entity = (if HasField (v3u_federated_identity v3_user_value)
                       then v1_string_property v1_entity PROPERTY_NAME_FEDERATED_IDENTITY
                              (str_get (v3u_federated_identity v3_user_value)) False
                       else v1_entity);
          v1_entity = (if HasField (v3u_federated_provider v3_user_value)
                       then v1_string_property v1_entity PROPERTY_NAME_FEDERATED_PROVIDER
                              (str_get (v3u_federated_provider v3_user_value)) False
                       else v1_entity)
      in v1_entity)"

subsection \<open>Legacy property to v1 value\<close>

definition v3_value_body_to_v1 ::
  "(string \<Rightarrow> error + v1_entity) \<Rightarrow> id_resolver \<Rightarrow> v3_property \<Rightarrow> bool \<Rightarrow> int option \<Rightarrow>
     error + v1_value \<times> int option" where
  "v3_value_body_to_v1 embedded id_resolver v3_property indexed v3_meaning =
     (let v1_value = v1_value_Clear; v3_property_value = v3p_value v3_property in
      if int_get (v3p_meaning v3_property) = EMPTY_LIST then
        Inr (v1_set_value_type (Array_value ([] @ [])) v1_value, None)
      else
      (case v3v_booleanValue v3_property_value of
        Some b \<Rightarrow> Inr (v1_set_value_type (Boolean_value b) v1_value, v3_meaning)
      | None \<Rightarrow>
      (case v3v_int64Value v3_property_value of
        Some i \<Rightarrow>
          (if v3_meaning = Some GD_WHEN \<and> is_in_rfc_3339_bounds i
           then Inr (v1_set_value_type (Timestamp_value i) v1_value, None)
           else Inr (v1_set_value_type (Integer_value i) v1_value, v3_meaning))
      | None \<Rightarrow>
      (case v3v_doubleValue v3_property_value of
        Some d \<Rightarrow> Inr (v1_set_value_type (Double_value d) v1_value, v3_meaning)
      | None \<Rightarrow>
      (case v3v_referencevalue v3_property_value of
        Some rv \<Rightarrow>
          (let v3_ref = v3_reference_value_to_v3_reference rv in
           case v3_to_v1_key id_resolver v3_ref of
             Inl e \<Rightarrow> Inl e
           | Inr v1_key \<Rightarrow> Inr (v1_set_value_type (Key_value v1_key) v1_value, v3_meaning))
      | None \<Rightarrow>
      (case v3v_stringValue v3_property_value of
        Some string_value \<Rightarrow>
          (if v3_meaning = Some ENTITY_PROTO then
             (case embedded string_value of
                Inl e \<Rightarrow> Inl e
              | Inr v1_entity \<Rightarrow> Inr (v1_set_value_type (Entity_value v1_entity) v1_value, None))
           else if v3_meaning = Some BLOB \<or> v3_meaning = Some BYTESTRING then
             Inr (v1_set_value_type (Blob_value string_value) v1_value,
                  if indexed \<or> v3_meaning = Some BLOB then None else v3_meaning)
           else if is_valid_utf8 string_value then
             Inr (v1_set_value_type (String_value string_value) v1_value, v3_meaning)
           else
             Inr (v1_set_value_type (Blob_value string_value) v1_value,
                  if v3_meaning \<noteq> Some INDEX_VALUE then None else v3_meaning))
      | None \<Rightarrow>
      (case v3v_pointvalue v3_property_value of
        Some point_value \<Rightarrow>
          (let v1_value = (if v3_meaning \<noteq> Some MEANING_GEORSS_POINT
                           then v1_set_meaning MEANING_POINT_WITHOUT_V3_MEANING v1_value
                           else v1_value)
           in Inr (v1_set_value_type (Geo_point_value
                     \<lparr>v1g_latitude = v3pt_x point_value, v1g_longitude = v3pt_y point_value\<rparr>)
                     v1_value, None))
      | None \<Rightarrow>
      (case v3v_uservalue v3_property_value of
        Some user_value \<Rightarrow>
          Inr (v1_set_meaning MEANING_PREDEFINED_ENTITY_USER
                 (v1_set_value_type (Entity_value (v3_user_value_to_v1_entity user_value)) v1_value),
               None)
      | None \<Rightarrow> Inr (v1_set_value_type Null_value v1_value, v3_meaning)))))))))"

definition v3_property_to_v1_value ::
  "(string \<Rightarrow> error + v1_entity) \<Rightarrow> id_resolver \<Rightarrow> v3_property \<Rightarrow> bool \<Rightarrow> error + v1_value" where
  "v3_property_to_v1_value embedded id_resolver v3_property indexed =
     (let (v3_meaning, is_zlib_value) = v3_meaning_prologue v3_property in
      case v3_value_body_to_v1 embedded id_resolver v3_property indexed v3_meaning of
        Inl e \<Rightarrow> Inl e
      | Inr (v1_value, v3_meaning) \<Rightarrow>
          (let v1_value = (if is_zlib_value then v1_set_meaning MEANING_ZLIB v1_value
                           else if meaning_truthy v3_meaning
                             then v1_set_meaning (int_get v3_meaning) v1_value
                           else v1_value);
               v1_value = (if indexed = v1v_exclude_from_indexes v1_value
                           then v1_set_exclude_from_indexes (\<not> indexed) v1_value
                           else v1_value)
           in Inr v1_value))"

subsection \<open>v1 value to legacy property\<close>

definition v1_value_to_v3_property_value ::
  "(v1_entity \<Rightarrow> error + string) \<Rightarrow> id_resolver \<Rightarrow> v1_value \<Rightarrow> error + v3_property_value" where
  "v1_value_to_v3_property_value serialized id_resolver v1_value =
     (let v3_value = v3_property_value_Clear in
      case v1v_value_type v1_value of
        Boolean_value b \<Rightarrow> Inr (v3_value\<lparr>v3v_booleanValue := Some b\<rparr>)
      | Integer_value i \<Rightarrow> Inr (v3_value\<lparr>v3v_int64Value := Some i\<rparr>)
      | Double_value d \<Rightarrow> Inr (v3_value\<lparr>v3v_doubleValue := Some d\<rparr>)
      | Timestamp_value t \<Rightarrow> Inr (v3_value\<lparr>v3v_int64Value := Some t\<rparr>)
      | Key_value k \<Rightarrow>
          (case v1_to_v3_reference id_resolver k of
             Inl e \<Rightarrow> Inl e
           | Inr v3_ref \<Rightarrow> Inr (v3_reference_to_v3_property_value v3_ref))
      | String_value s \<Rightarrow> Inr (v3_value\<lparr>v3v_stringValue := Some (encode_utf8 s)\<rparr>)
      | Blob_value s \<Rightarrow> Inr (v3_value\<lparr>v3v_stringValue := Some s\<rparr>)
      | Entity_value v1_entity_value \<Rightarrow>
          (if v1v_meaning v1_value = MEANING_PREDEFINED_ENTITY_USER then
             (case v1_entity_to_v3_user_value v1_entity_value of
                Inl e \<Rightarrow> Inl e
              | Inr u \<Rightarrow> Inr (v3_value\<lparr>v3v_uservalue := Some u\<rparr>))
           else
             (case serialized v1_entity_value of
                Inl e \<Rightarrow> Inl e
              | Inr s \<Rightarrow> Inr (v3_value\<lparr>v3v_stringValue := Some s\<rparr>)))
      | Geo_point_value g \<Rightarrow>
          Inr (v3_value\<lparr>v3v_pointvalue := Some
                 \<lparr>v3pt_x = v1g_latitude g, v3pt_y = v1g_longitude g\<rparr>\<rparr>)
      | Null_value \<Rightarrow> Inr v3_property_value_Clear
      | _ \<Rightarrow> Inr v3_property_value_Clear)"

fun is_array_value :: "v1_value_type \<Rightarrow> bool" where
  "is_array_value (Array_value vs) = True"
| "is_array_value _ = False"

definition v1_to_v3_property ::
  "(v1_entity \<Rightarrow> error + string) \<Rightarrow> id_resolver \<Rightarrow> string \<Rightarrow> bool \<Rightarrow> bool \<Rightarrow> v1_value \<Rightarrow>
     error + v3_property" where
  "v1_to_v3_property serialized id_resolver property_name is_multi is_projection v1_value =
     (let v1_value_type = v1v_value_type v1_value in
      if is_array_value v1_value_type then Inl AssertionError
      else
      case v1_value_to_v3_property_value serialized id_resolver v1_value of
        Inl e \<Rightarrow> Inl e
      | Inr v3_value \<Rightarrow>
          (let v3_property = v3_property_Clear\<lparr>v3p_name := encode_utf8 property_name,
                               v3p_multiple := is_multi, v3p_value := v3_value\<rparr>;
               v1_meaning = (if v1v_meaning v1_value \<noteq> 0 then Some (v1v_meaning v1_value) else None);
               (v3_property, v1_meaning) =
                 (case v1_value_type of
                    Timestamp_value t \<Rightarrow> (v3_property\<lparr>v3p_meaning := Some GD_WHEN\<rparr>, v1_meaning)
                  | Blob_value s \<Rightarrow>
                      (let v3_property = (if v1_meaning = Some MEANING_ZLIB
                                          then v3_property\<lparr>v3p_meaning_uri := Some URI_MEANING_ZLIB\<rparr>
                                          else v3_property)
                       in if v1_meaning = Some BYTESTRING then (v3_property, v1_meaning)
                          else (if \<not> v1v_exclude_from_indexes v1_value
                                then v3_property\<lparr>v3p_meaning := Some BYTESTRING\<rparr>
                                else v3_property\<lparr>v3p_meaning := Some BLOB\<rparr>, None))
                  | Entity_value e \<Rightarrow>
                      (if v1_meaning \<noteq> Some MEANING_PREDEFINED_ENTITY_USER
                       then v3_property\<lparr>v3p_meaning := Some ENTITY_PROTO\<rparr>
                       else v3_property, None)
                  | Geo_point_value g \<Rightarrow>
                      (if v1_meaning \<noteq> Some MEANING_POINT_WITHOUT_V3_MEANING
                       then v3_property\<lparr>v3p_meaning := Some MEANING_GEORSS_POINT\<rparr>
                       else v3_property, None)
                  | Integer_value i \<Rightarrow>
                      (if v1_meaning = Some MEANING_NON_RFC_3339_TIMESTAMP
                       then (v3_property\<lparr>v3p_meaning := Some GD_WHEN\<rparr>, None)
                       else (v3_property, v1_meaning))
                  | _ \<Rightarrow> (v3_property, v1_meaning))
           in if v1_meaning \<noteq> None \<and> \<not> legacy_meaning (int_get v1_meaning)
              then Inl ValueError
              else
                (let v3_property = (if v1_meaning \<noteq> None
                                    then v3_property\<lparr>v3p_meaning := v1_meaning\<rparr>
                                    else v3_property);
                     v3_property = (if is_projection
                                    then v3_property\<lparr>v3p_meaning := Some INDEX_VALUE\<rparr>
                                    else v3_property)
                 in Inr v3_property)))"

subsection \<open>Entities (v1)\<close>

definition new_v3_property :: "v3_entity_proto \<Rightarrow> bool \<Rightarrow> v3_property \<Rightarrow> v3_entity_proto" where
  "new_v3_property v3_entity is_indexed prop =
     (if is_indexed
      then v3_entity\<lparr>v3n_property := v3n_property v3_entity @ [prop]\<rparr>
      else v3_entity\<lparr>v3n_raw_property := v3n_raw_property v3_entity @ [prop]\<rparr>)"

definition add_v3_property_from_v1 ::
  "(v1_entity \<Rightarrow> error + string) \<Rightarrow> id_resolver \<Rightarrow> string \<Rightarrow> bool \<Rightarrow> bool \<Rightarrow> v1_value \<Rightarrow>
     v3_entity_proto \<Rightarrow> error + v3_entity_proto" where
  "add_v3_property_from_v1 serialized id_resolver property_name is_multi is_projection v1_value
       v3_entity =
     (case v1_to_v3_property serialized id_resolver property_name is_multi is_projection v1_value of
        Inl e \<Rightarrow> Inl e
      | Inr prop \<Rightarrow>
          Inr (new_v3_property v3_entity (\<not> v1v_exclude_from_indexes v1_value) prop))"

definition v1_to_v3_entity ::
  "(v1_entity \<Rightarrow> error + string) \<Rightarrow> id_resolver \<Rightarrow> v1_entity \<Rightarrow> bool \<Rightarrow> error + v3_entity_proto" where
  "v1_to_v3_entity serialized id_resolver v1_entity is_projection =
     (case for_each
             (\<lambda>entry v3_entity.
                let property_name = fst entry; v1_value = snd entry in
                case v1v_value_type v1_value of
                  Array_value vs \<Rightarrow>
                    (if length vs = 0 then
                       Inr (new_v3_property v3_entity (\<not> v1v_exclude_from_indexes v1_value)
                              (v3_property_Clear\<lparr>v3p_name := property_name, v3p_multiple := False,
                                 v3p_meaning := Some MEANING_EMPTY_LIST,
                                 v3p_value := v3_property_value_Clear\<rparr>))
                     else
                       for_each (\<lambda>v1_sub_value.
                           add_v3_property_from_v1 serialized id_resolver property_name True
                             is_projection v1_sub_value)
                         vs v3_entity)
                | _ \<Rightarrow>
                    add_v3_property_from_v1 serialized id_resolver property_name False
                      is_projection v1_value v3_entity)
             (v1n_properties v1_entity) v3_entity_proto_Clear of
        Inl e \<Rightarrow> Inl e
      | Inr v3_entity \<Rightarrow>
          (case v1n_key v1_entity of
             Some v1_key \<Rightarrow>
               (case v1_to_v3_reference id_resolver v1_key of
                  Inl e \<Rightarrow> Inl e
                | Inr v3_ref \<Rightarrow>
                    (case v3_reference_to_group v3_ref of
                       Inl e \<Rightarrow> Inl e
                     | Inr g \<Rightarrow> Inr (v3_entity\<lparr>v3n_key := Some v3_ref, v3n_entity_group := g\<rparr>)))
           | None \<Rightarrow> Inr v3_entity))"

text \<open>
  \<^verbatim>\<open>__add_v1_property_to_entity\<close> subscripts the map (adding an empty Value for a new
  name); a value that is one of several is added to the array of that Value, and a
  single value replaces it.
\<close>

definition v1_array_values :: "v1_value \<Rightarrow> v1_value list" where
  "v1_array_values v1_value =
     (case v1v_value_type v1_value of Array_value vs \<Rightarrow> vs | _ \<Rightarrow> [])"

definition add_v1_property_to_entity ::
  "(string \<Rightarrow> error + v1_entity) \<Rightarrow> id_resolver \<Rightarrow> v3_property \<Rightarrow> bool \<Rightarrow> v1_entity \<Rightarrow>
     error + v1_entity" where
  "add_v1_property_to_entity embedded id_resolver v3_property indexed v1_entity =
     (let property_name = v3p_name v3_property in
      case v3_property_to_v1_value embedded id_resolver v3_property indexed of
        Inl e \<Rightarrow> Inl e
      | Inr v1_value \<Rightarrow>
          (if v3p_multiple v3_property
           then Inr (V1_Entity (v1n_key v1_entity)
                  (v1_properties_modify property_name
                     (\<lambda>old. v1_set_value_type (Array_value (v1_array_values old @ [v1_value])) old)
                     (v1n_properties v1_entity)))
           else Inr (V1_Entity (v1n_key v1_entity)
                  (v1_properties_modify property_name (\<lambda>old. v1_value)
                     (v1n_properties v1_entity)))))"

definition v3_to_v1_entity ::
  "(string \<Rightarrow> error + v1_entity) \<Rightarrow> id_resolver \<Rightarrow> v3_entity_proto \<Rightarrow> error + v1_entity" where
  "v3_to_v1_entity embedded id_resolver v3_entity =
     (case v3_to_v1_key id_resolver (v3n_key_get v3_entity) of
        Inl e \<Rightarrow> Inl e
      | Inr v1_key \<Rightarrow>
          (let v1_entity = V1_Entity
                 (if HasField (v3r_app (v3n_key_get v3_entity)) then Some v1_key else None) []
           in case for_each
                     (\<lambda>v3_property. add_v1_property_to_entity embedded id_resolver v3_property True)
                     (v3n_property v3_entity) v1_entity of
                Inl e \<Rightarrow> Inl e
              | Inr v1_entity \<Rightarrow>
                  for_each
                    (\<lambda>v3_property. add_v1_property_to_entity embedded id_resolver v3_property False)
                    (v3n_raw_property v3_entity) v1_entity))"

text \<open>
  The same for v1, whose legacy-to-modern direction parses with \<^verbatim>\<open>ParseFromString\<close>;
  \<open>parse\<close> is that method, which fails on bytes that are no message.
\<close>

fun v3_to_v1_entity_nested ::
  "nat \<Rightarrow> (string \<Rightarrow> v3_entity_proto option) \<Rightarrow> id_resolver \<Rightarrow> v3_entity_proto \<Rightarrow>
     error + v1_entity" where
  "v3_to_v1_entity_nested 0 parse id_resolver v3_entity =
     v3_to_v1_entity (\<lambda>serialized_entity_v3. Inl RecursionError) id_resolver v3_entity"
| "v3_to_v1_entity_nested (Suc depth) parse id_resolver v3_entity =
     v3_to_v1_entity
       (\<lambda>serialized_entity_v3.
          case parse serialized_entity_v3 of
            None \<Rightarrow> Inl DecodeError
          | Some inner \<Rightarrow> v3_to_v1_entity_nested depth parse id_resolver inner)
       id_resolver v3_entity"

fun v1_to_v3_entity_nested ::
  "nat \<Rightarrow> (v3_entity_proto \<Rightarrow> string) \<Rightarrow> id_resolver \<Rightarrow> v1_entity \<Rightarrow> bool \<Rightarrow>
     error + v3_entity_proto" where
  "v1_to_v3_entity_nested 0 serialize id_resolver v1_entity is_projection =
     v1_to_v3_entity (\<lambda>v1_entity_value. Inl RecursionError) id_resolver v1_entity is_projection"
| "v1_to_v3_entity_nested (Suc depth) serialize id_resolver v1_entity is_projection =
     v1_to_v3_entity
       (\<lambda>v1_entity_value.
          case v1_to_v3_entity_nested depth serialize id_resolver v1_entity_value False of
            Inl e \<Rightarrow> Inl e
          | Inr v3_entity_value \<Rightarrow> Inr (serialize v3_entity_value))
       id_resolver v1_entity is_projection"

section \<open>Filters\<close>

record v3_filter =
  v3f_op :: int
  v3f_property :: "v3_property list"

record v1_property_filter =
  v1pf_op :: int
  v1pf_property_name :: string
  v1pf_value :: v1_value

record v4_property_filter =
  v4pf_operator :: int
  v4pf_property_name :: string
  v4pf_value :: v4_value

definition v3_filter_to_v1_property_filter ::
  "(string \<Rightarrow> error + v1_entity) \<Rightarrow> id_resolver \<Rightarrow> v3_filter \<Rightarrow> error + v1_property_filter" where
  "v3_filter_to_v1_property_filter embedded id_resolver v3_filter =
     (case check_conversion (length (v3f_property v3_filter) = 1) ''invalid filter'' of
        Inl e \<Rightarrow> Inl e
      | Inr _ \<Rightarrow>
     (case check_conversion (v3f_op v3_filter \<le> 5)
             (''unsupported filter op: '' @ format_d (v3f_op v3_filter)) of
        Inl e \<Rightarrow> Inl e
      | Inr _ \<Rightarrow>
     (case v3_property_to_v1_value embedded id_resolver (v3f_property v3_filter ! 0) True of
        Inl e \<Rightarrow> Inl e
      | Inr v1_value \<Rightarrow>
          Inr \<lparr>v1pf_op = v3f_op v3_filter,
               v1pf_property_name = v3p_name (v3f_property v3_filter ! 0),
               v1pf_value = v1_value\<rparr>)))"

definition v3_filter_to_v4_property_filter ::
  "(string \<Rightarrow> error + v4_entity) \<Rightarrow> v3_filter \<Rightarrow> error + v4_property_filter" where
  "v3_filter_to_v4_property_filter embedded v3_filter =
     (case check_conversion (length (v3f_property v3_filter) = 1) ''invalid filter'' of
        Inl e \<Rightarrow> Inl e
      | Inr _ \<Rightarrow>
     (case check_conversion (v3f_op v3_filter \<le> 5)
             (''unsupported filter op: '' @ format_d (v3f_op v3_filter)) of
        Inl e \<Rightarrow> Inl e
      | Inr _ \<Rightarrow>
     (case v3_property_to_v4_value embedded (v3f_property v3_filter ! 0) True of
        Inl e \<Rightarrow> Inl e
      | Inr v4_value \<Rightarrow>
          Inr \<lparr>v4pf_operator = v3f_op v3_filter,
               v4pf_property_name = v3p_name (v3f_property v3_filter ! 0),
               v4pf_value = v4_value\<rparr>)))"

section \<open>Predicates of the specification\<close>

text \<open>
  The specification's reading of completeness: the final path element carries an id or
  a non-empty name.
\<close>

definition spec_complete_v3_element :: "v3_element \<Rightarrow> bool" where
  "spec_complete_v3_element e = (HasField (v3e_id e) \<or> str_get (v3e_name e) \<noteq> [])"

definition spec_complete_v1_element :: "v1_path_element \<Rightarrow> bool" where
  "spec_complete_v1_element e =
     (case v1e_id_type e of Id i \<Rightarrow> True | Name n \<Rightarrow> n \<noteq> [] | Id_type_unset \<Rightarrow> False)"


text \<open>The entry that \<^verbatim>\<open>v3_user_value_to_v1_entity\<close> adds for an optional field.\<close>

definition v1_optional_entry :: "string \<Rightarrow> string option \<Rightarrow> (string \<times> v1_value) list" where
  "v1_optional_entry name field =
     (case field of None \<Rightarrow> [] | Some s \<Rightarrow> [(name, V1_Value 0 True (String_value s))])"

text \<open>A property for the examples: a plain string named \<open>title\<close>.\<close>

definition title_property :: v3_property where
  "title_property = v3_property_Clear\<lparr>v3p_name := ''title'',
     v3p_value := v3_property_value_Clear\<lparr>v3v_stringValue := Some ''a''\<rparr>\<rparr>"

section \<open>Identifier resolution\<close>

lemma rsplit_not_Nil: "rsplit sep s \<noteq> []"
  by (induction s) (auto split: list.splits)

lemma rsplit_no_sep: "sep \<notin> set s \<Longrightarrow> rsplit sep s = [s]"
  by (induction s) auto

lemma rsplit_append_sep:
  "sep \<notin> set suffix \<Longrightarrow> rsplit sep (prefix @ sep # suffix) = rsplit sep prefix @ [suffix]"
proof (induction prefix)
  case Nil
  then show ?case by (simp add: rsplit_no_sep)
next
  case (Cons c cs)
  obtain p ps where "rsplit sep cs = p # ps"
    using rsplit_not_Nil [of sep cs] by (cases "rsplit sep cs") auto
  with Cons show ?case by simp
qed

lemma IdResolver_resolve_project_id_suffix:
  "\<exists>suffix. IdResolver_resolve_project_id app_id = Inr suffix \<and> CHR ''~'' \<notin> set suffix \<and>
     (if CHR ''~'' \<in> set app_id then \<exists>prefix. app_id = prefix @ CHR ''~'' # suffix
      else app_id = suffix)"
proof (cases "CHR ''~'' \<in> set app_id")
  case True
  then obtain prefix suffix where s: "app_id = prefix @ CHR ''~'' # suffix" "CHR ''~'' \<notin> set suffix"
    using split_list_last by fastforce
  then have "IdResolver_resolve_project_id app_id = Inr suffix"
    by (simp add: IdResolver_resolve_project_id_def last_item_def rsplit_append_sep)
  with s True show ?thesis by auto
next
  case False
  then show ?thesis
    by (simp add: IdResolver_resolve_project_id_def last_item_def rsplit_no_sep)
qed

lemma IdResolver_fill_dom:
  "\<exists>m'. IdResolver_fill app_ids m = Inr m' \<and>
     (\<forall>p. m' p \<noteq> None \<longrightarrow> m p \<noteq> None \<or> (\<exists>a \<in> set app_ids. IdResolver_resolve_project_id a = Inr p))"
proof (induction app_ids arbitrary: m)
  case Nil
  then show ?case by simp
next
  case (Cons a as)
  obtain p where p: "IdResolver_resolve_project_id a = Inr p"
    using IdResolver_resolve_project_id_suffix [of a] by blast
  obtain m' where m': "IdResolver_fill as (m(p \<mapsto> a)) = Inr m'"
    and dom: "\<forall>q. m' q \<noteq> None \<longrightarrow>
        (m(p \<mapsto> a)) q \<noteq> None \<or> (\<exists>b \<in> set as. IdResolver_resolve_project_id b = Inr q)"
    using Cons [of "m(p \<mapsto> a)"] by blast
  have "IdResolver_fill (a # as) m = Inr m'"
    using p m' by simp
  moreover have "\<forall>q. m' q \<noteq> None \<longrightarrow>
        m q \<noteq> None \<or> (\<exists>b \<in> set (a # as). IdResolver_resolve_project_id b = Inr q)"
  proof (intro allI impI)
    fix q
    assume "m' q \<noteq> None"
    with dom have "(m(p \<mapsto> a)) q \<noteq> None \<or> (\<exists>b \<in> set as. IdResolver_resolve_project_id b = Inr q)"
      by blast
    then show "m q \<noteq> None \<or> (\<exists>b \<in> set (a # as). IdResolver_resolve_project_id b = Inr q)"
      using p by (cases "q = p") auto
  qed
  ultimately show ?case by blast
qed

text \<open>
  Claim C9. \<^verbatim>\<open>IdResolver.resolve_project_id\<close> never fails: it returns the part of its
  argument after the last \<open>~\<close>, and the whole argument when there is no \<open>~\<close>; so
  \<open>s~myapp\<close> resolves to \<open>myapp\<close>. A resolver built from \<open>[s~myapp]\<close> resolves the
  project \<open>myapp\<close> to \<open>s~myapp\<close>, and a resolver built from any list raises the
  invalid-conversion error for every project id that no application id of the list
  resolves to (\<open>unknown\<close> for one); the message of the error is
  \<^verbatim>\<open>Cannot determine application id for provided project id: \<close> followed by the
  project id between double quotes (the character \<open>0x22\<close>) and a full stop.
  Being a function of its argument alone, the result is determined by it.
\<close>

theorem IdResolver_resolution:
  "(\<exists>suffix. resolve_project_id (IdResolver resolver_map) app_id = Inr suffix \<and>
       CHR ''~'' \<notin> set suffix \<and>
       (if CHR ''~'' \<in> set app_id then \<exists>prefix. app_id = prefix @ CHR ''~'' # suffix
        else app_id = suffix)) \<and>
   resolve_project_id (IdResolver resolver_map) ''s~myapp'' = Inr ''myapp'' \<and>
   (\<exists>r. IdResolver_init [''s~myapp''] = Inr r \<and>
        resolve_app_id r ''myapp'' = Inr ''s~myapp'' \<and>
        resolve_app_id r ''unknown'' =
          Inl (InvalidConversionError
            (''Cannot determine application id for provided project id: '' @
             [CHR 0x22] @ ''unknown'' @ [CHR 0x22] @ ''.''))) \<and>
   (\<exists>r. IdResolver_init app_ids = Inr r \<and>
        ((\<forall>a \<in> set app_ids. resolve_project_id r a \<noteq> Inr project_id) \<longrightarrow>
         resolve_app_id r project_id =
           Inl (InvalidConversionError
             (''Cannot determine application id for provided project id: '' @
              [CHR 0x22] @ project_id @ [CHR 0x22] @ ''.''))))"
proof (intro conjI)
  show "\<exists>suffix. resolve_project_id (IdResolver resolver_map) app_id = Inr suffix \<and>
       CHR ''~'' \<notin> set suffix \<and>
       (if CHR ''~'' \<in> set app_id then \<exists>prefix. app_id = prefix @ CHR ''~'' # suffix
        else app_id = suffix)"
    using IdResolver_resolve_project_id_suffix [of app_id] by simp
  show "resolve_project_id (IdResolver resolver_map) ''s~myapp'' = Inr ''myapp''"
    by (simp add: IdResolver_resolve_project_id_def last_item_def)
  show "\<exists>r. IdResolver_init [''s~myapp''] = Inr r \<and>
        resolve_app_id r ''myapp'' = Inr ''s~myapp'' \<and>
        resolve_app_id r ''unknown'' =
          Inl (InvalidConversionError
            (''Cannot determine application id for provided project id: '' @
             [CHR 0x22] @ ''unknown'' @ [CHR 0x22] @ ''.''))"
    by (simp add: IdResolver_init_def IdResolver_resolve_project_id_def last_item_def
        check_conversion_def unknown_project_message_def)
  obtain m' where m': "IdResolver_fill app_ids Map.empty = Inr m'"
    and dom: "\<forall>p. m' p \<noteq> None \<longrightarrow>
        Map.empty p \<noteq> (None :: string option) \<or>
        (\<exists>a \<in> set app_ids. IdResolver_resolve_project_id a = Inr p)"
    using IdResolver_fill_dom [of app_ids Map.empty] by blast
  have "IdResolver_init app_ids = Inr (IdResolver m')"
    using m' by (simp add: IdResolver_init_def)
  moreover have "(\<forall>a \<in> set app_ids. resolve_project_id (IdResolver m') a \<noteq> Inr project_id) \<longrightarrow>
         resolve_app_id (IdResolver m') project_id =
           Inl (InvalidConversionError
             (''Cannot determine application id for provided project id: '' @
              [CHR 0x22] @ project_id @ [CHR 0x22] @ ''.''))"
  proof
    assume "\<forall>a \<in> set app_ids. resolve_project_id (IdResolver m') a \<noteq> Inr project_id"
    with dom have "m' project_id = None" by auto
    then show "resolve_app_id (IdResolver m') project_id =
           Inl (InvalidConversionError
             (''Cannot determine application id for provided project id: '' @
              [CHR 0x22] @ project_id @ [CHR 0x22] @ ''.''))"
      by (simp add: check_conversion_def unknown_project_message_def)
  qed
  ultimately show "\<exists>r. IdResolver_init app_ids = Inr r \<and>
        ((\<forall>a \<in> set app_ids. resolve_project_id r a \<noteq> Inr project_id) \<longrightarrow>
         resolve_app_id r project_id =
           Inl (InvalidConversionError
             (''Cannot determine application id for provided project id: '' @
              [CHR 0x22] @ project_id @ [CHR 0x22] @ ''.'')))"
    by blast
qed

theorem IdResolver_resolution_witness:
  "\<exists>r. IdResolver_init [''s~myapp'', ''e~other''] = Inr r \<and>
       resolve_app_id r ''other'' = Inr ''e~other'' \<and>
       resolve_app_id r ''s~myapp'' =
         Inl (InvalidConversionError
           (''Cannot determine application id for provided project id: '' @
            [CHR 0x22] @ ''s~myapp'' @ [CHR 0x22] @ ''.''))"
proof -
  obtain r where r: "IdResolver_init [''s~myapp'', ''e~other''] = Inr r"
    and imp: "(\<forall>a \<in> set [''s~myapp'', ''e~other'']. resolve_project_id r a \<noteq> Inr ''s~myapp'') \<longrightarrow>
         resolve_app_id r ''s~myapp'' =
           Inl (InvalidConversionError
             (''Cannot determine application id for provided project id: '' @
              [CHR 0x22] @ ''s~myapp'' @ [CHR 0x22] @ ''.''))"
    using IdResolver_resolution [of Map.empty "[]" "[''s~myapp'', ''e~other'']" "''s~myapp''"]
    by blast
  from r have rm: "r = IdResolver [''myapp'' \<mapsto> ''s~myapp'', ''other'' \<mapsto> ''e~other'']"
    by (simp add: IdResolver_init_def IdResolver_resolve_project_id_def last_item_def)
  have "\<forall>a \<in> set [''s~myapp'', ''e~other'']. resolve_project_id r a \<noteq> Inr ''s~myapp''"
    by (simp add: rm IdResolver_resolve_project_id_def last_item_def)
  with imp have "resolve_app_id r ''s~myapp'' =
           Inl (InvalidConversionError
             (''Cannot determine application id for provided project id: '' @
              [CHR 0x22] @ ''s~myapp'' @ [CHR 0x22] @ ''.''))" by blast
  moreover have "resolve_app_id r ''other'' = Inr ''e~other''"
    by (simp add: rm check_conversion_def)
  ultimately show ?thesis using r by blast
qed

section \<open>Key completeness\<close>

text \<open>
  The claim as stated fails for v1: a final element whose name is set to the empty
  string is reported complete, though it carries no id and its name is empty.
\<close>

theorem is_complete_v1_key_empty_name_counterexample:
  "is_complete_v1_key \<lparr>v1k_partition_id = None,
       v1k_path = [\<lparr>v1e_kind = ''Kind'', v1e_id_type = Name []\<rparr>]\<rparr> = Inr True \<and>
   \<not> spec_complete_v1_element (last [\<lparr>v1e_kind = ''Kind'', v1e_id_type = Name []\<rparr>])"
  by (simp add: is_complete_v1_key_def spec_complete_v1_element_def)

text \<open>
  Claim C10, as the code has it. For a key with at least one path element the legacy
  predicate is true exactly when the final element carries a non-zero id or a non-empty
  name: an id that is set to zero does not count. The v1 predicate is true exactly when
  the final element's \<^verbatim>\<open>oneof\<close> is set: it agrees with the specification's reading
  but for a name that is set and empty, which it counts. In both versions a final
  element with neither id nor name is incomplete and one with the id 5 is complete.
  The predicates are functions of the key and return only a truth value.
\<close>

theorem is_complete_key_amended:
  "(v3r_path v3_key \<noteq> [] \<longrightarrow>
      is_complete_v3_key v3_key =
        Inr (spec_complete_v3_element (last (v3r_path v3_key)) \<and>
             (v3e_id (last (v3r_path v3_key)) = Some 0 \<longrightarrow>
                str_get (v3e_name (last (v3r_path v3_key))) \<noteq> []))) \<and>
   (v1k_path v1_key \<noteq> [] \<longrightarrow>
      is_complete_v1_key v1_key =
        Inr (spec_complete_v1_element (last (v1k_path v1_key)) \<or>
             v1e_id_type (last (v1k_path v1_key)) = Name [])) \<and>
   is_complete_v3_key (v3_key\<lparr>v3r_path := path3 @ [\<lparr>v3e_type = t, v3e_id = None, v3e_name = None\<rparr>]\<rparr>)
     = Inr False \<and>
   is_complete_v3_key (v3_key\<lparr>v3r_path := path3 @ [\<lparr>v3e_type = t, v3e_id = Some 5, v3e_name = None\<rparr>]\<rparr>)
     = Inr True \<and>
   is_complete_v1_key (v1_key\<lparr>v1k_path := path1 @ [\<lparr>v1e_kind = k, v1e_id_type = Id_type_unset\<rparr>]\<rparr>)
     = Inr False \<and>
   is_complete_v1_key (v1_key\<lparr>v1k_path := path1 @ [\<lparr>v1e_kind = k, v1e_id_type = Id 5\<rparr>]\<rparr>)
     = Inr True"
proof (intro conjI impI)
  assume "v3r_path v3_key \<noteq> []"
  then show "is_complete_v3_key v3_key =
        Inr (spec_complete_v3_element (last (v3r_path v3_key)) \<and>
             (v3e_id (last (v3r_path v3_key)) = Some 0 \<longrightarrow>
                str_get (v3e_name (last (v3r_path v3_key))) \<noteq> []))"
    by (cases "v3e_id (last (v3r_path v3_key))"; cases "v3e_name (last (v3r_path v3_key))")
       (auto simp: is_complete_v3_key_def spec_complete_v3_element_def HasField_def
          int_get_def str_get_def Let_def Suc_le_eq)
next
  assume "v1k_path v1_key \<noteq> []"
  then show "is_complete_v1_key v1_key =
        Inr (spec_complete_v1_element (last (v1k_path v1_key)) \<or>
             v1e_id_type (last (v1k_path v1_key)) = Name [])"
    by (cases "v1e_id_type (last (v1k_path v1_key))")
       (auto simp: is_complete_v1_key_def spec_complete_v1_element_def Let_def Suc_le_eq
          last_conv_nth)
qed (simp_all add: is_complete_v3_key_def is_complete_v1_key_def HasField_def int_get_def
       str_get_def nth_append)

theorem is_complete_key_amended_witness:
  "is_complete_v3_key \<lparr>v3r_app = Some ''app'', v3r_name_space = None,
       v3r_path = [\<lparr>v3e_type = Some ''Kind'', v3e_id = Some 0, v3e_name = None\<rparr>]\<rparr> = Inr False \<and>
   is_complete_v1_key \<lparr>v1k_partition_id = None,
       v1k_path = [\<lparr>v1e_kind = ''Kind'', v1e_id_type = Name ''n''\<rparr>]\<rparr> = Inr True"
  using is_complete_key_amended [of
      "\<lparr>v3r_app = Some ''app'', v3r_name_space = None,
        v3r_path = [\<lparr>v3e_type = Some ''Kind'', v3e_id = Some 0, v3e_name = None\<rparr>]\<rparr>"
      "\<lparr>v1k_partition_id = None, v1k_path = [\<lparr>v1e_kind = ''Kind'', v1e_id_type = Name ''n''\<rparr>]\<rparr>"]
  by (simp add: spec_complete_v3_element_def spec_complete_v1_element_def HasField_def str_get_def)

text \<open>
  The v4 predicate never returns: past its assertion it calls the repeated field.
\<close>

lemma is_complete_v4_key_raises:
  "is_complete_v4_key v4_key =
     Inl (if v4k_path_element v4_key = [] then AssertionError else TypeError)"
  by (cases "v4k_path_element v4_key") (simp_all add: is_complete_v4_key_def)

section \<open>Key conversion\<close>

lemma resolve_project_id_total: "\<exists>project_id. resolve_project_id id_resolver app_id = Inr project_id"
proof (cases id_resolver)
  case (IdResolver m)
  then show ?thesis
    by (simp add: IdResolver_resolve_project_id_def last_item_def rsplit_not_Nil)
next
  case IdentityIdResolver
  then show ?thesis by simp
qed

lemma v3_to_v4_element_fields:
  "v4e_kind (v3_to_v4_element e) = Some (str_get (v3e_type e)) \<and>
   v4e_id (v3_to_v4_element e) = v3e_id e \<and>
   v4e_name (v3_to_v4_element e) = v3e_name e"
  by (cases "v3e_id e"; cases "v3e_name e")
     (simp_all add: v3_to_v4_element_def HasField_def int_get_def str_get_def)

lemma v3_to_v1_element_fields:
  "v1e_kind (v3_to_v1_element e) = str_get (v3e_type e) \<and>
   v1e_id_type (v3_to_v1_element e) =
     (case v3e_name e of
        Some n \<Rightarrow> Name n
      | None \<Rightarrow> (case v3e_id e of Some i \<Rightarrow> Id i | None \<Rightarrow> Id_type_unset))"
  by (cases "v3e_id e"; cases "v3e_name e")
     (simp_all add: v3_to_v1_element_def HasField_def int_get_def str_get_def)

text \<open>
  The claim as stated fails: a Reference without an app loses its path.
\<close>

theorem v3_to_v4_key_drops_path_counterexample:
  "v3r_path \<lparr>v3r_app = None, v3r_name_space = None,
             v3r_path = [\<lparr>v3e_type = Some ''Kind'', v3e_id = Some 7, v3e_name = None\<rparr>]\<rparr> \<noteq> [] \<and>
   v4k_path_element (v3_to_v4_key \<lparr>v3r_app = None, v3r_name_space = None,
             v3r_path = [\<lparr>v3e_type = Some ''Kind'', v3e_id = Some 7, v3e_name = None\<rparr>]\<rparr>) = [] \<and>
   v3_to_v1_key IdentityIdResolver \<lparr>v3r_app = None, v3r_name_space = None,
             v3r_path = [\<lparr>v3e_type = Some ''Kind'', v3e_id = Some 7, v3e_name = None\<rparr>]\<rparr>
     = Inr \<lparr>v1k_partition_id = None, v1k_path = []\<rparr>"
  by (simp add: v3_to_v4_key_def v3_to_v1_key_def v4_key_Clear_def v1_key_Clear_def str_get_def)

text \<open>
  Claim C7, as the code has it. When the app of the Reference is absent or empty,
  \<^verbatim>\<open>v3_to_v4_key\<close> and \<^verbatim>\<open>v3_to_v1_key\<close> return at once: the key stays cleared, with
  no partition and no path element. Otherwise the partition is written, with the app
  (resolved to a project id for v1) and with the name space when it is not empty, and
  the path is converted element by element in order: the kind is the element's type,
  and the id and the name are copied as they are set (in v1, where they share a
  \<^verbatim>\<open>oneof\<close>, the name when both are set).
\<close>

theorem v3_to_modern_key_amended:
  "(if str_get (v3r_app v3_ref) = []
    then v3_to_v4_key v3_ref = \<lparr>v4k_partition_id = None, v4k_path_element = []\<rparr> \<and>
         v3_to_v1_key id_resolver v3_ref = Inr \<lparr>v1k_partition_id = None, v1k_path = []\<rparr>
    else
      v4k_partition_id (v3_to_v4_key v3_ref) =
        Some \<lparr>v4p_dataset_id = Some (str_get (v3r_app v3_ref)),
              v4p_namespace = (if str_get (v3r_name_space v3_ref) = [] then None
                               else Some (str_get (v3r_name_space v3_ref)))\<rparr> \<and>
      map v4e_kind (v4k_path_element (v3_to_v4_key v3_ref)) =
        map (\<lambda>e. Some (str_get (v3e_type e))) (v3r_path v3_ref) \<and>
      map v4e_id (v4k_path_element (v3_to_v4_key v3_ref)) = map v3e_id (v3r_path v3_ref) \<and>
      map v4e_name (v4k_path_element (v3_to_v4_key v3_ref)) = map v3e_name (v3r_path v3_ref) \<and>
      (\<exists>project_id v1_key.
         resolve_project_id id_resolver (str_get (v3r_app v3_ref)) = Inr project_id \<and>
         v3_to_v1_key id_resolver v3_ref = Inr v1_key \<and>
         v1k_partition_id v1_key =
           Some \<lparr>v1p_project_id = project_id,
                 v1p_namespace_id = str_get (v3r_name_space v3_ref)\<rparr> \<and>
         map v1e_kind (v1k_path v1_key) = map (\<lambda>e. str_get (v3e_type e)) (v3r_path v3_ref) \<and>
         map v1e_id_type (v1k_path v1_key) =
           map (\<lambda>e. case v3e_name e of
                       Some n \<Rightarrow> Name n
                     | None \<Rightarrow> (case v3e_id e of Some i \<Rightarrow> Id i | None \<Rightarrow> Id_type_unset))
               (v3r_path v3_ref)))"
proof (cases "str_get (v3r_app v3_ref) = []")
  case True
  then show ?thesis
    by (simp add: v3_to_v4_key_def v3_to_v1_key_def v4_key_Clear_def v1_key_Clear_def)
next
  case False
  obtain project_id where p: "resolve_project_id id_resolver (str_get (v3r_app v3_ref)) = Inr project_id"
    using resolve_project_id_total by blast
  have v4: "v3_to_v4_key v3_ref =
      \<lparr>v4k_partition_id = Some
          \<lparr>v4p_dataset_id = Some (str_get (v3r_app v3_ref)),
           v4p_namespace = (if str_get (v3r_name_space v3_ref) = [] then None
                            else Some (str_get (v3r_name_space v3_ref)))\<rparr>,
        v4k_path_element = map v3_to_v4_element (v3r_path v3_ref)\<rparr>"
    using False by (simp add: v3_to_v4_key_def)
  have v1: "v3_to_v1_key id_resolver v3_ref = Inr
      \<lparr>v1k_partition_id = Some
          \<lparr>v1p_project_id = project_id, v1p_namespace_id = str_get (v3r_name_space v3_ref)\<rparr>,
        v1k_path = map v3_to_v1_element (v3r_path v3_ref)\<rparr>"
    using False p by (simp add: v3_to_v1_key_def)
  show ?thesis
    using False p by (simp add: v4 v1 v3_to_v4_element_fields v3_to_v1_element_fields comp_def)
qed

theorem v3_to_modern_key_amended_witness:
  "v3_to_v4_key \<lparr>v3r_app = Some ''s~app'', v3r_name_space = None,
       v3r_path = [\<lparr>v3e_type = Some ''Kind'', v3e_id = Some 7, v3e_name = None\<rparr>]\<rparr> =
     \<lparr>v4k_partition_id = Some \<lparr>v4p_dataset_id = Some ''s~app'', v4p_namespace = None\<rparr>,
      v4k_path_element = [\<lparr>v4e_kind = Some ''Kind'', v4e_id = Some 7, v4e_name = None\<rparr>]\<rparr> \<and>
   v4k_partition_id (v3_to_v4_key \<lparr>v3r_app = Some ''s~app'', v3r_name_space = None,
       v3r_path = [\<lparr>v3e_type = Some ''Kind'', v3e_id = Some 7, v3e_name = None\<rparr>]\<rparr>) =
     Some \<lparr>v4p_dataset_id = Some ''s~app'', v4p_namespace = None\<rparr>"
  using v3_to_modern_key_amended [of "\<lparr>v3r_app = Some ''s~app'', v3r_name_space = None,
       v3r_path = [\<lparr>v3e_type = Some ''Kind'', v3e_id = Some 7, v3e_name = None\<rparr>]\<rparr>"
       IdentityIdResolver]
  by (simp add: str_get_def v3_to_v4_key_def v3_to_v4_element_def HasField_def int_get_def)

section \<open>Embedded points and users\<close>

lemmas v4_store_defs =
  v4_set_fields_def v4_set_indexed_def v4_set_meaning_def v4_set_entity_value_def
  v4_value_Clear_def v4_fields_Clear_def

lemmas v4_property_defs =
  v4_double_property_def v4_string_property_def v4_integer_property_def
  get_v4_double_value_def get_v4_string_value_def get_v4_integer_value_def
  optional_v4_string_def optional_v4_integer_def subscript_def check_conversion_def
  build_name_to_v4_property_map_def

lemmas v1_property_defs =
  v1_string_property_def v1_integer_property_def v1_double_property_def
  v1_properties_modify_def v1_properties_contains_def v1_properties_get_def
  v1_set_value_type_def v1_set_exclude_from_indexes_def v1_set_meaning_def
  v1_value_Clear_def v1_entity_Clear_def
  get_v1_string_value_def get_v1_integer_value_def get_v1_double_value_def
  optional_v1_string_def optional_v1_integer_def check_conversion_def

lemma v4_point_round_trip: "v4_to_v3_point_value (v3_to_v4_point_entity p) = Inr p"
  by (simp add: v4_to_v3_point_value_def v3_to_v4_point_entity_def v4_property_defs
      v4_store_defs meanings HasField_def)

lemma v4_user_round_trip: "v4_entity_to_v3_user_value (v3_user_value_to_v4_entity u) = Inr u"
  by (cases "v3u_obfuscated_gaiaid u"; cases "v3u_federated_identity u";
      cases "v3u_federated_provider u"; cases "v3u_gaiaid u = 0")
     (simp_all add: v4_entity_to_v3_user_value_def v3_user_value_to_v4_entity_def
        v4_property_defs v4_store_defs meanings HasField_def str_get_def int_get_def)


lemma v1_properties_modify_fresh:
  "map_of properties name = None \<Longrightarrow>
   v1_properties_modify name g properties = properties @ [(name, g v1_value_Clear)]"
  by (simp add: v1_properties_modify_def v1_properties_contains_def)

lemma v1_string_property_fresh:
  "map_of properties name = None \<Longrightarrow>
   v1_string_property (V1_Entity k properties) name s indexed =
     V1_Entity k (properties @ [(name, V1_Value 0 (\<not> indexed) (String_value s))])"
  by (simp add: v1_string_property_def v1_properties_modify_fresh v1_set_value_type_def
      v1_set_exclude_from_indexes_def v1_value_Clear_def)

lemma v1_integer_property_fresh:
  "map_of properties name = None \<Longrightarrow>
   v1_integer_property (V1_Entity k properties) name i indexed =
     V1_Entity k (properties @ [(name, V1_Value 0 (\<not> indexed) (Integer_value i))])"
  by (simp add: v1_integer_property_def v1_properties_modify_fresh v1_set_value_type_def
      v1_set_exclude_from_indexes_def v1_value_Clear_def)

lemma v3_user_value_to_v1_entity_properties:
  "v3_user_value_to_v1_entity u =
     V1_Entity None
       ([(''email'', V1_Value 0 True (String_value (v3u_email u))),
         (''auth_domain'', V1_Value 0 True (String_value (v3u_auth_domain u)))] @
        (if v3u_gaiaid u \<noteq> 0
         then [(''internal_id'', V1_Value 0 True (Integer_value (v3u_gaiaid u)))] else []) @
        v1_optional_entry ''user_id'' (v3u_obfuscated_gaiaid u) @
        v1_optional_entry ''federated_identity'' (v3u_federated_identity u) @
        v1_optional_entry ''federated_provider'' (v3u_federated_provider u))"
  by (cases "v3u_obfuscated_gaiaid u"; cases "v3u_federated_identity u";
      cases "v3u_federated_provider u"; cases "v3u_gaiaid u = 0")
     (simp_all add: v3_user_value_to_v1_entity_def v1_entity_Clear_def Let_def
        v1_string_property_fresh v1_integer_property_fresh v1_optional_entry_def
        meanings HasField_def str_get_def)

lemma v1_user_round_trip: "v1_entity_to_v3_user_value (v3_user_value_to_v1_entity u) = Inr u"
  by (cases "v3u_obfuscated_gaiaid u"; cases "v3u_federated_identity u";
      cases "v3u_federated_provider u"; cases "v3u_gaiaid u = 0")
     (simp_all add: v3_user_value_to_v1_entity_properties v1_entity_to_v3_user_value_def
        v1_optional_entry_def optional_v1_string_def optional_v1_integer_def
        v1_properties_contains_def v1_properties_get_def get_v1_string_value_def
        get_v1_integer_value_def check_conversion_def meanings encode_utf8_def Let_def)

section \<open>Scalar and blob round trips\<close>

lemmas v1_store_defs =
  v1_set_value_type_def v1_set_exclude_from_indexes_def v1_set_meaning_def v1_value_Clear_def

lemmas prologue_defs =
  v3_meaning_prologue_def is_v3_property_value_union_valid_def
  is_v3_property_value_meaning_valid_def value_checkers_def v3_property_value_Clear_def
  HasField_def meaning_truthy_def int_get_def


lemmas to_v4_defs =
  v3_property_to_v4_value_def v3_value_body_to_v4_def prologue_defs v4_store_defs
  v4v_indexed_get_def Let_def

lemmas from_v4_defs =
  v4_to_v3_property_def v4_value_to_v3_property_value_def v4v_meaning_get_def
  legacy_meaning_def value_checkers_def
  v4v_indexed_get_def v3_property_Clear_def v3_property_value_Clear_def HasField_def
  int_get_def v4_fields_Clear_def encode_utf8_def Let_def

lemmas to_v1_defs =
  v3_property_to_v1_value_def v3_value_body_to_v1_def prologue_defs v1_store_defs Let_def

lemmas from_v1_defs =
  v1_to_v3_property_def v1_value_to_v3_property_value_def v3_property_Clear_def
  legacy_meaning_def value_checkers_def
  v3_property_value_Clear_def encode_utf8_def Let_def










lemma invalid_utf8_to_v4:
  assumes "v3p_value p = v3_property_value_Clear\<lparr>v3v_stringValue := Some s\<rparr>"
    and "\<not> is_valid_utf8 s"
    and "int_get (v3p_meaning p) \<notin> {ENTITY_PROTO, BLOB, BYTESTRING}"
  shows "v3_property_to_v4_value embedded p indexed =
      Inr (V4_Value (v4_fields_Clear\<lparr>v4v_blob_value := Some s,
             v4v_meaning := (if str_get (v3p_meaning_uri p) = URI_MEANING_ZLIB then Some MEANING_ZLIB
                             else if int_get (v3p_meaning p) = INDEX_VALUE then Some INDEX_VALUE
                             else None),
             v4v_indexed := (if indexed then None else Some False)\<rparr>) None [])"
  using assms
  by (cases "v3p_meaning p"; cases "v3p_meaning_uri p")
     (simp_all add: to_v4_defs str_get_def meanings)

lemma invalid_utf8_to_v1:
  assumes "v3p_value p = v3_property_value_Clear\<lparr>v3v_stringValue := Some s\<rparr>"
    and "\<not> is_valid_utf8 s"
    and "int_get (v3p_meaning p) \<notin> {ENTITY_PROTO, BLOB, BYTESTRING, EMPTY_LIST}"
  shows "v3_property_to_v1_value embedded id_resolver p indexed =
      Inr (V1_Value (if str_get (v3p_meaning_uri p) = URI_MEANING_ZLIB then MEANING_ZLIB
                     else if int_get (v3p_meaning p) = INDEX_VALUE then INDEX_VALUE
                     else 0)
             (\<not> indexed) (Blob_value s))"
  using assms
  by (cases "v3p_meaning p"; cases "v3p_meaning_uri p")
     (simp_all add: to_v1_defs str_get_def meanings)

lemma invalid_utf8_empty_list_to_v1:
  assumes "v3p_value p = v3_property_value_Clear\<lparr>v3v_stringValue := Some s\<rparr>"
    and "int_get (v3p_meaning p) = EMPTY_LIST"
  shows "v3_property_to_v1_value embedded id_resolver p indexed =
      Inr (V1_Value (if str_get (v3p_meaning_uri p) = URI_MEANING_ZLIB then MEANING_ZLIB else 0)
             (\<not> indexed) (Array_value []))"
  using assms
  by (cases "v3p_meaning p"; cases "v3p_meaning_uri p")
     (simp_all add: to_v1_defs str_get_def meanings)

text \<open>
  Claim C2, as the code has it. A legacy string value that is not valid UTF-8, under a
  meaning that is none of entity proto, blob and bytestring, becomes a v4 blob value
  with the same bytes, and a v1 blob value with the same bytes unless the meaning is
  the reserved empty-list tag. Converted back, the legacy value is a string with the
  same bytes, and the property's meaning is the index-value meaning when the
  conversion is of a projection, and otherwise bytestring when the value is indexed
  and blob when it is not. Under the empty-list tag the v1 Value is an empty array,
  which the way back refuses.
\<close>

theorem invalid_utf8_round_trip_amended:
  assumes "v3p_value p = v3_property_value_Clear\<lparr>v3v_stringValue := Some s\<rparr>"
    and "\<not> is_valid_utf8 s"
    and "int_get (v3p_meaning p) \<notin> {ENTITY_PROTO, BLOB, BYTESTRING}"
  shows "(\<exists>v4 p'. v3_property_to_v4_value embedded4 p indexed = Inr v4 \<and>
            v4v_blob_value (v4v_fields v4) = Some s \<and>
            v4_to_v3_property serialized4 name is_multi is_projection v4 = Inr p' \<and>
            v3p_value p' = v3_property_value_Clear\<lparr>v3v_stringValue := Some s\<rparr> \<and>
            v3p_meaning p' = Some (if is_projection then INDEX_VALUE
                                   else if indexed then BYTESTRING else BLOB)) \<and>
         (if int_get (v3p_meaning p) = EMPTY_LIST
          then \<exists>v1. v3_property_to_v1_value embedded1 id_resolver p indexed = Inr v1 \<and>
                 v1v_value_type v1 = Array_value [] \<and>
                 v1_to_v3_property serialized1 id_resolver name is_multi is_projection v1 =
                   Inl AssertionError
          else \<exists>v1 p'. v3_property_to_v1_value embedded1 id_resolver p indexed = Inr v1 \<and>
                 v1v_value_type v1 = Blob_value s \<and>
                 v1_to_v3_property serialized1 id_resolver name is_multi is_projection v1 = Inr p' \<and>
                 v3p_value p' = v3_property_value_Clear\<lparr>v3v_stringValue := Some s\<rparr> \<and>
                 v3p_meaning p' = Some (if is_projection then INDEX_VALUE
                                        else if indexed then BYTESTRING else BLOB))"
proof
  show "\<exists>v4 p'. v3_property_to_v4_value embedded4 p indexed = Inr v4 \<and>
            v4v_blob_value (v4v_fields v4) = Some s \<and>
            v4_to_v3_property serialized4 name is_multi is_projection v4 = Inr p' \<and>
            v3p_value p' = v3_property_value_Clear\<lparr>v3v_stringValue := Some s\<rparr> \<and>
            v3p_meaning p' = Some (if is_projection then INDEX_VALUE
                                   else if indexed then BYTESTRING else BLOB)"
    by (simp add: invalid_utf8_to_v4 [OF assms] from_v4_defs meanings)
  show "if int_get (v3p_meaning p) = EMPTY_LIST
          then \<exists>v1. v3_property_to_v1_value embedded1 id_resolver p indexed = Inr v1 \<and>
                 v1v_value_type v1 = Array_value [] \<and>
                 v1_to_v3_property serialized1 id_resolver name is_multi is_projection v1 =
                   Inl AssertionError
          else \<exists>v1 p'. v3_property_to_v1_value embedded1 id_resolver p indexed = Inr v1 \<and>
                 v1v_value_type v1 = Blob_value s \<and>
                 v1_to_v3_property serialized1 id_resolver name is_multi is_projection v1 = Inr p' \<and>
                 v3p_value p' = v3_property_value_Clear\<lparr>v3v_stringValue := Some s\<rparr> \<and>
                 v3p_meaning p' = Some (if is_projection then INDEX_VALUE
                                        else if indexed then BYTESTRING else BLOB)"
  proof (cases "int_get (v3p_meaning p) = EMPTY_LIST")
    case True
    then show ?thesis
      by (simp add: invalid_utf8_empty_list_to_v1 [OF assms(1) True] from_v1_defs)
  next
    case False
    with assms(3) have m: "int_get (v3p_meaning p) \<notin> {ENTITY_PROTO, BLOB, BYTESTRING, EMPTY_LIST}"
      by simp
    from False show ?thesis
      by (simp add: invalid_utf8_to_v1 [OF assms(1) assms(2) m] from_v1_defs meanings)
  qed
qed

theorem invalid_utf8_round_trip_amended_witness:
  "(\<exists>v4 p'. v3_property_to_v4_value (\<lambda>s. Inl AttributeError)
        (v3_property_Clear\<lparr>v3p_name := ''raw'',
           v3p_value := v3_property_value_Clear\<lparr>v3v_stringValue := Some [CHR 0xC3, CHR 0x28]\<rparr>\<rparr>)
        True = Inr v4 \<and>
     v4v_blob_value (v4v_fields v4) = Some [CHR 0xC3, CHR 0x28] \<and>
     v4_to_v3_property (\<lambda>e. Inl DecodeError) ''raw'' False True v4 = Inr p' \<and>
     v3p_value p' = v3_property_value_Clear\<lparr>v3v_stringValue := Some [CHR 0xC3, CHR 0x28]\<rparr> \<and>
     v3p_meaning p' = Some INDEX_VALUE) \<and>
   (\<exists>v1 p'. v3_property_to_v1_value (\<lambda>s. Inl DecodeError) IdentityIdResolver
        (v3_property_Clear\<lparr>v3p_name := ''raw'',
           v3p_value := v3_property_value_Clear\<lparr>v3v_stringValue := Some [CHR 0xC3, CHR 0x28]\<rparr>\<rparr>)
        True = Inr v1 \<and>
     v1v_value_type v1 = Blob_value [CHR 0xC3, CHR 0x28] \<and>
     v1_to_v3_property (\<lambda>e. Inl DecodeError) IdentityIdResolver ''raw'' False True v1 = Inr p' \<and>
     v3p_value p' = v3_property_value_Clear\<lparr>v3v_stringValue := Some [CHR 0xC3, CHR 0x28]\<rparr> \<and>
     v3p_meaning p' = Some INDEX_VALUE)"
proof -
  have "v3p_value (v3_property_Clear\<lparr>v3p_name := ''raw'',
           v3p_value := v3_property_value_Clear\<lparr>v3v_stringValue := Some [CHR 0xC3, CHR 0x28]\<rparr>\<rparr>)
      = v3_property_value_Clear\<lparr>v3v_stringValue := Some [CHR 0xC3, CHR 0x28]\<rparr>"
    by simp
  moreover have "\<not> is_valid_utf8 [CHR 0xC3, CHR 0x28]"
    by (simp add: is_valid_utf8_def continuation_def)
  moreover have "int_get (v3p_meaning (v3_property_Clear\<lparr>v3p_name := ''raw'',
           v3p_value := v3_property_value_Clear\<lparr>v3v_stringValue := Some [CHR 0xC3, CHR 0x28]\<rparr>\<rparr>))
      \<notin> {ENTITY_PROTO, BLOB, BYTESTRING}"
    by (simp add: v3_property_Clear_def int_get_def meanings)
  moreover have "int_get (v3p_meaning (v3_property_Clear\<lparr>v3p_name := ''raw'',
           v3p_value := v3_property_value_Clear\<lparr>v3v_stringValue := Some [CHR 0xC3, CHR 0x28]\<rparr>\<rparr>))
      \<noteq> EMPTY_LIST"
    by (simp add: v3_property_Clear_def int_get_def meanings)
  ultimately show ?thesis
    using invalid_utf8_round_trip_amended [of
        "v3_property_Clear\<lparr>v3p_name := ''raw'',
           v3p_value := v3_property_value_Clear\<lparr>v3v_stringValue := Some [CHR 0xC3, CHR 0x28]\<rparr>\<rparr>"
        "[CHR 0xC3, CHR 0x28]" "\<lambda>s. Inl AttributeError" True
        "\<lambda>e. Inl DecodeError" "''raw''" False True "\<lambda>s. Inl DecodeError" IdentityIdResolver
        "\<lambda>e. Inl DecodeError"]
    by simp
qed

text \<open>
  The claim as stated fails: the meaning of the property that comes back is not empty;
  and on the v1 path a string tagged as an empty list does not become a blob value.
\<close>

theorem blob_round_trip_meaning_counterexample:
  "v3_property_to_v1_value (\<lambda>s. Inl DecodeError) IdentityIdResolver
       (v3_property_Clear\<lparr>v3p_name := ''raw'',
          v3p_value := v3_property_value_Clear\<lparr>v3v_stringValue := Some [CHR 0xFF]\<rparr>\<rparr>)
       False = Inr (V1_Value 0 True (Blob_value [CHR 0xFF])) \<and>
   v1_to_v3_property (\<lambda>e. Inl DecodeError) IdentityIdResolver ''raw'' False False
       (V1_Value 0 True (Blob_value [CHR 0xFF])) =
     Inr (v3_property_Clear\<lparr>v3p_name := ''raw'', v3p_meaning := Some BLOB,
          v3p_value := v3_property_value_Clear\<lparr>v3v_stringValue := Some [CHR 0xFF]\<rparr>\<rparr>) \<and>
   BLOB \<noteq> NO_MEANING \<and>
   v3_property_to_v1_value (\<lambda>s. Inl DecodeError) IdentityIdResolver
       (v3_property_Clear\<lparr>v3p_name := ''raw'', v3p_meaning := Some EMPTY_LIST,
          v3p_value := v3_property_value_Clear\<lparr>v3v_stringValue := Some [CHR 0xFF]\<rparr>\<rparr>)
       False = Inr (V1_Value 0 True (Array_value [])) \<and>
   v1_to_v3_property (\<lambda>e. Inl DecodeError) IdentityIdResolver ''raw'' False False
       (V1_Value 0 True (Array_value [])) = Inl AssertionError"
  by (simp add: to_v1_defs from_v1_defs is_valid_utf8_def str_get_def meanings)

section \<open>Points and users through the property converters\<close>

lemma point_property_round_trip_v4:
  "\<exists>v4 p'. v3_property_to_v4_value embedded
        (v3_property_Clear\<lparr>v3p_name := name, v3p_multiple := is_multi,
           v3p_value := v3_property_value_Clear\<lparr>v3v_pointvalue := Some pt\<rparr>\<rparr>) indexed = Inr v4 \<and>
      v4v_entity_value v4 = Some (v3_to_v4_point_entity pt) \<and>
      v4_to_v3_property serialized name is_multi is_projection v4 = Inr p' \<and>
      v3p_value p' = v3_property_value_Clear\<lparr>v3v_pointvalue := Some pt\<rparr>"
proof -
  have fwd: "v3_property_to_v4_value embedded
        (v3_property_Clear\<lparr>v3p_name := name, v3p_multiple := is_multi,
           v3p_value := v3_property_value_Clear\<lparr>v3v_pointvalue := Some pt\<rparr>\<rparr>) indexed =
      Inr (V4_Value (v4_fields_Clear\<lparr>v4v_meaning := Some MEANING_PREDEFINED_ENTITY_POINT,
             v4v_indexed := (if indexed then None else Some False)\<rparr>)
           (Some (v3_to_v4_point_entity pt)) [])"
    by (simp add: to_v4_defs v3_property_Clear_def meanings)
  show ?thesis
    unfolding fwd by (simp add: from_v4_defs v4_point_round_trip meanings)
qed

lemma point_property_round_trip_v1:
  "\<exists>v1 p'. v3_property_to_v1_value embedded id_resolver
        (v3_property_Clear\<lparr>v3p_name := name, v3p_multiple := is_multi,
           v3p_value := v3_property_value_Clear\<lparr>v3v_pointvalue := Some pt\<rparr>\<rparr>) indexed = Inr v1 \<and>
      v1v_value_type v1 =
        Geo_point_value \<lparr>v1g_latitude = v3pt_x pt, v1g_longitude = v3pt_y pt\<rparr> \<and>
      v1_to_v3_property serialized id_resolver name is_multi is_projection v1 = Inr p' \<and>
      v3p_value p' = v3_property_value_Clear\<lparr>v3v_pointvalue := Some pt\<rparr>"
proof -
  have fwd: "v3_property_to_v1_value embedded id_resolver
        (v3_property_Clear\<lparr>v3p_name := name, v3p_multiple := is_multi,
           v3p_value := v3_property_value_Clear\<lparr>v3v_pointvalue := Some pt\<rparr>\<rparr>) indexed =
      Inr (V1_Value MEANING_POINT_WITHOUT_V3_MEANING (\<not> indexed)
             (Geo_point_value \<lparr>v1g_latitude = v3pt_x pt, v1g_longitude = v3pt_y pt\<rparr>))"
    by (simp add: to_v1_defs v3_property_Clear_def meanings)
  show ?thesis
    unfolding fwd by (simp add: from_v1_defs meanings)
qed

lemma user_property_round_trip_v4:
  "\<exists>v4 p'. v3_property_to_v4_value embedded
        (v3_property_Clear\<lparr>v3p_name := name, v3p_multiple := is_multi,
           v3p_value := v3_property_value_Clear\<lparr>v3v_uservalue := Some u\<rparr>\<rparr>) indexed = Inr v4 \<and>
      v4v_entity_value v4 = Some (v3_user_value_to_v4_entity u) \<and>
      v4_to_v3_property serialized name is_multi is_projection v4 = Inr p' \<and>
      v3p_value p' = v3_property_value_Clear\<lparr>v3v_uservalue := Some u\<rparr>"
proof -
  have fwd: "v3_property_to_v4_value embedded
        (v3_property_Clear\<lparr>v3p_name := name, v3p_multiple := is_multi,
           v3p_value := v3_property_value_Clear\<lparr>v3v_uservalue := Some u\<rparr>\<rparr>) indexed =
      Inr (V4_Value (v4_fields_Clear\<lparr>v4v_meaning := Some MEANING_PREDEFINED_ENTITY_USER,
             v4v_indexed := (if indexed then None else Some False)\<rparr>)
           (Some (v3_user_value_to_v4_entity u)) [])"
    by (simp add: to_v4_defs v3_property_Clear_def meanings)
  show ?thesis
    unfolding fwd by (simp add: from_v4_defs v4_user_round_trip meanings)
qed

lemma user_property_round_trip_v1:
  "\<exists>v1 p'. v3_property_to_v1_value embedded id_resolver
        (v3_property_Clear\<lparr>v3p_name := name, v3p_multiple := is_multi,
           v3p_value := v3_property_value_Clear\<lparr>v3v_uservalue := Some u\<rparr>\<rparr>) indexed = Inr v1 \<and>
      v1v_value_type v1 = Entity_value (v3_user_value_to_v1_entity u) \<and>
      v1_to_v3_property serialized id_resolver name is_multi is_projection v1 = Inr p' \<and>
      v3p_value p' = v3_property_value_Clear\<lparr>v3v_uservalue := Some u\<rparr>"
proof -
  have fwd: "v3_property_to_v1_value embedded id_resolver
        (v3_property_Clear\<lparr>v3p_name := name, v3p_multiple := is_multi,
           v3p_value := v3_property_value_Clear\<lparr>v3v_uservalue := Some u\<rparr>\<rparr>) indexed =
      Inr (V1_Value MEANING_PREDEFINED_ENTITY_USER (\<not> indexed)
             (Entity_value (v3_user_value_to_v1_entity u)))"
    by (simp add: to_v1_defs v3_property_Clear_def meanings)
  show ?thesis
    unfolding fwd by (simp add: from_v1_defs v1_user_round_trip meanings)
qed

text \<open>
  Claim C3. A legacy point converted to the embedded v4 entity and decoded again is the
  same point, for every \<open>x\<close> and \<open>y\<close> (the doubles 1.5 and -2.25 for one). A legacy
  user converted to the embedded v4 or v1 entity and decoded again is the same user:
  with an email, an auth domain and the gaia id 42 and no optional field, the three
  come back and the optional fields stay unset. The same holds through the property
  converters, for a property that holds the point or the user.
\<close>

theorem point_and_user_round_trip:
  "v4_to_v3_point_value (v3_to_v4_point_entity pt) = Inr pt \<and>
   v4_to_v3_point_value
       (v3_to_v4_point_entity \<lparr>v3pt_x = 0x3FF8000000000000, v3pt_y = 0xC002000000000000\<rparr>) =
     Inr \<lparr>v3pt_x = 0x3FF8000000000000, v3pt_y = 0xC002000000000000\<rparr> \<and>
   v4_entity_to_v3_user_value (v3_user_value_to_v4_entity u) = Inr u \<and>
   v1_entity_to_v3_user_value (v3_user_value_to_v1_entity u) = Inr u \<and>
   v4_entity_to_v3_user_value (v3_user_value_to_v4_entity
       \<lparr>v3u_email = email, v3u_auth_domain = auth_domain, v3u_gaiaid = 42,
        v3u_obfuscated_gaiaid = None, v3u_federated_identity = None,
        v3u_federated_provider = None\<rparr>) =
     Inr \<lparr>v3u_email = email, v3u_auth_domain = auth_domain, v3u_gaiaid = 42,
          v3u_obfuscated_gaiaid = None, v3u_federated_identity = None,
          v3u_federated_provider = None\<rparr> \<and>
   v1_entity_to_v3_user_value (v3_user_value_to_v1_entity
       \<lparr>v3u_email = email, v3u_auth_domain = auth_domain, v3u_gaiaid = 42,
        v3u_obfuscated_gaiaid = None, v3u_federated_identity = None,
        v3u_federated_provider = None\<rparr>) =
     Inr \<lparr>v3u_email = email, v3u_auth_domain = auth_domain, v3u_gaiaid = 42,
          v3u_obfuscated_gaiaid = None, v3u_federated_identity = None,
          v3u_federated_provider = None\<rparr> \<and>
   (\<exists>v4 p'. v3_property_to_v4_value embedded4
        (v3_property_Clear\<lparr>v3p_name := name, v3p_multiple := is_multi,
           v3p_value := v3_property_value_Clear\<lparr>v3v_pointvalue := Some pt\<rparr>\<rparr>) indexed = Inr v4 \<and>
      v4v_entity_value v4 = Some (v3_to_v4_point_entity pt) \<and>
      v4_to_v3_property serialized4 name is_multi is_projection v4 = Inr p' \<and>
      v3p_value p' = v3_property_value_Clear\<lparr>v3v_pointvalue := Some pt\<rparr>) \<and>
   (\<exists>v1 p'. v3_property_to_v1_value embedded1 id_resolver
        (v3_property_Clear\<lparr>v3p_name := name, v3p_multiple := is_multi,
           v3p_value := v3_property_value_Clear\<lparr>v3v_pointvalue := Some pt\<rparr>\<rparr>) indexed = Inr v1 \<and>
      v1v_value_type v1 =
        Geo_point_value \<lparr>v1g_latitude = v3pt_x pt, v1g_longitude = v3pt_y pt\<rparr> \<and>
      v1_to_v3_property serialized1 id_resolver name is_multi is_projection v1 = Inr p' \<and>
      v3p_value p' = v3_property_value_Clear\<lparr>v3v_pointvalue := Some pt\<rparr>) \<and>
   (\<exists>v4 p'. v3_property_to_v4_value embedded4
        (v3_property_Clear\<lparr>v3p_name := name, v3p_multiple := is_multi,
           v3p_value := v3_property_value_Clear\<lparr>v3v_uservalue := Some u\<rparr>\<rparr>) indexed = Inr v4 \<and>
      v4v_entity_value v4 = Some (v3_user_value_to_v4_entity u) \<and>
      v4_to_v3_property serialized4 name is_multi is_projection v4 = Inr p' \<and>
      v3p_value p' = v3_property_value_Clear\<lparr>v3v_uservalue := Some u\<rparr>) \<and>
   (\<exists>v1 p'. v3_property_to_v1_value embedded1 id_resolver
        (v3_property_Clear\<lparr>v3p_name := name, v3p_multiple := is_multi,
           v3p_value := v3_property_value_Clear\<lparr>v3v_uservalue := Some u\<rparr>\<rparr>) indexed = Inr v1 \<and>
      v1v_value_type v1 = Entity_value (v3_user_value_to_v1_entity u) \<and>
      v1_to_v3_property serialized1 id_resolver name is_multi is_projection v1 = Inr p' \<and>
      v3p_value p' = v3_property_value_Clear\<lparr>v3v_uservalue := Some u\<rparr>)"
  by (intro conjI v4_point_round_trip v4_user_round_trip v1_user_round_trip
      point_property_round_trip_v4 point_property_round_trip_v1 user_property_round_trip_v4
      user_property_round_trip_v1)

section \<open>Decoding embedded entities\<close>

lemma v4_point_absent_field:
  "build_name_to_v4_property_map v4_point_entity ''x'' = None \<Longrightarrow>
   v4_to_v3_point_value v4_point_entity = Inl (KeyError ''x'')"
  by (simp add: v4_to_v3_point_value_def subscript_def)

lemma v4_point_wrong_type:
  "build_name_to_v4_property_map v4_point_entity ''x'' = Some px \<Longrightarrow>
   v4v_double_value (v4v_fields (snd px)) = None \<Longrightarrow>
   v4_to_v3_point_value v4_point_entity =
     Inl (InvalidConversionError ''Property does not contain a double value.'')"
  by (simp add: v4_to_v3_point_value_def subscript_def get_v4_double_value_def
      check_conversion_def HasField_def)

lemma v4_user_absent_field:
  "build_name_to_v4_property_map v4_user_entity ''email'' = None \<Longrightarrow>
   v4_entity_to_v3_user_value v4_user_entity = Inl (KeyError ''email'')"
  by (simp add: v4_entity_to_v3_user_value_def subscript_def meanings)

lemma get_v1_string_value_error:
  "get_v1_string_value v = Inl e \<Longrightarrow> \<exists>message. e = InvalidConversionError message"
  by (cases "v1v_value_type v") (auto simp: get_v1_string_value_def check_conversion_def)

lemma get_v1_integer_value_error:
  "get_v1_integer_value v = Inl e \<Longrightarrow> \<exists>message. e = InvalidConversionError message"
  by (cases "v1v_value_type v") (auto simp: get_v1_integer_value_def check_conversion_def)

lemma optional_v1_string_error:
  "optional_v1_string properties name = Inl e \<Longrightarrow> \<exists>message. e = InvalidConversionError message"
  by (auto simp: optional_v1_string_def split: if_splits sum.splits
      dest: get_v1_string_value_error)

lemma optional_v1_integer_error:
  "optional_v1_integer properties name d = Inl e \<Longrightarrow> \<exists>message. e = InvalidConversionError message"
  by (auto simp: optional_v1_integer_def split: if_splits dest: get_v1_integer_value_error)

lemma v1_user_errors_are_invalid_conversions:
  assumes "v1_entity_to_v3_user_value v1_user_entity = Inl e"
  shows "\<exists>message. e = InvalidConversionError message"
  using assms
  by (auto simp: v1_entity_to_v3_user_value_def Let_def split: sum.splits
      dest: get_v1_string_value_error optional_v1_string_error optional_v1_integer_error)

lemma optional_v1_string_present:
  "optional_v1_string properties name = Inr field \<Longrightarrow>
   HasField field = v1_properties_contains properties name"
  by (auto simp: optional_v1_string_def HasField_def split: if_splits sum.splits)

lemma optional_v1_integer_absent:
  "optional_v1_integer properties name d = Inr i \<Longrightarrow>
   \<not> v1_properties_contains properties name \<Longrightarrow> i = d"
  by (auto simp: optional_v1_integer_def split: if_splits)

lemma v1_user_optional_fields:
  assumes "v1_entity_to_v3_user_value v1_user_entity = Inr u"
  shows "HasField (v3u_obfuscated_gaiaid u) =
     v1_properties_contains (v1n_properties v1_user_entity) PROPERTY_NAME_USER_ID \<and>
   HasField (v3u_federated_identity u) =
     v1_properties_contains (v1n_properties v1_user_entity) PROPERTY_NAME_FEDERATED_IDENTITY \<and>
   HasField (v3u_federated_provider u) =
     v1_properties_contains (v1n_properties v1_user_entity) PROPERTY_NAME_FEDERATED_PROVIDER \<and>
   (if v1_properties_contains (v1n_properties v1_user_entity) PROPERTY_NAME_INTERNAL_ID
    then get_v1_integer_value
           (v1_properties_get (v1n_properties v1_user_entity) PROPERTY_NAME_INTERNAL_ID) =
         Inr (v3u_gaiaid u)
    else v3u_gaiaid u = 0)"
  using assms
  by (auto simp: v1_entity_to_v3_user_value_def Let_def optional_v1_integer_def
      split: sum.splits if_splits dest: optional_v1_string_present)

lemma optional_v4_string_present:
  "optional_v4_string name_to_v4_property name = Inr field \<Longrightarrow>
   HasField field = HasField (name_to_v4_property name)"
  by (auto simp: optional_v4_string_def HasField_def split: if_splits sum.splits)

lemma v4_user_optional_fields:
  assumes "v4_entity_to_v3_user_value v4_user_entity = Inr u"
  shows "HasField (v3u_obfuscated_gaiaid u) =
     HasField (build_name_to_v4_property_map v4_user_entity PROPERTY_NAME_USER_ID) \<and>
   HasField (v3u_federated_identity u) =
     HasField (build_name_to_v4_property_map v4_user_entity PROPERTY_NAME_FEDERATED_IDENTITY) \<and>
   HasField (v3u_federated_provider u) =
     HasField (build_name_to_v4_property_map v4_user_entity PROPERTY_NAME_FEDERATED_PROVIDER) \<and>
   (case build_name_to_v4_property_map v4_user_entity PROPERTY_NAME_INTERNAL_ID of
      Some p \<Rightarrow> get_v4_integer_value p = Inr (v3u_gaiaid u)
    | None \<Rightarrow> v3u_gaiaid u = 0)"
  using assms
  by (auto simp: v4_entity_to_v3_user_value_def Let_def optional_v4_integer_def subscript_def
      split: sum.splits if_splits option.splits dest: optional_v4_string_present)

text \<open>
  Claim C6 at its failing input. The v4 decoders subscript the dict of the entity's
  properties with the name of a required field before any check: when \<open>x\<close> (or
  \<open>email\<close>) is absent the subscript raises KeyError, not the invalid-conversion error.
  The v1 decoder, which subscripts the map of the message, raises the
  invalid-conversion error for the same entity.
\<close>

theorem embedded_decoders_absent_field:
  "v4_to_v3_point_value (V4_Entity None [v4_double_property ''y'' 0xC002000000000000 False]) =
     Inl (KeyError ''x'') \<and>
   v4_value_to_v3_property_value (\<lambda>e. Inl DecodeError)
       (V4_Value (v4_fields_Clear\<lparr>v4v_meaning := Some MEANING_PREDEFINED_ENTITY_POINT\<rparr>)
          (Some (V4_Entity None [v4_double_property ''y'' 0xC002000000000000 False])) []) =
     Inl (KeyError ''x'') \<and>
   v4_entity_to_v3_user_value
       (V4_Entity None [v4_string_property ''auth_domain'' ''example.com'' False]) =
     Inl (KeyError ''email'') \<and>
   v1_entity_to_v3_user_value
       (V1_Entity None [(''auth_domain'', V1_Value 0 True (String_value ''example.com''))]) =
     Inl (InvalidConversionError ''Value does not contain a string value.'')"
  by (simp add: v4_to_v3_point_value_def v4_value_to_v3_property_value_def
      v4_entity_to_v3_user_value_def v1_entity_to_v3_user_value_def v4_property_defs
      v4_store_defs v4v_meaning_get_def int_get_def v1_properties_get_def
      get_v1_string_value_def v1_value_Clear_def meanings)

section \<open>The indexed flag\<close>

lemma v3_to_v1_key_total: "\<exists>v1_key. v3_to_v1_key id_resolver v3_ref = Inr v1_key"
proof -
  obtain project_id where "resolve_project_id id_resolver (str_get (v3r_app v3_ref)) = Inr project_id"
    using resolve_project_id_total by blast
  then show ?thesis by (simp add: v3_to_v1_key_def)
qed

lemma v3_to_v1_key_not_Inl: "v3_to_v1_key id_resolver v3_ref \<noteq> Inl e"
  using v3_to_v1_key_total [of id_resolver v3_ref] by auto

lemma v3_value_body_to_v4_indexed:
  "v3_value_body_to_v4 embedded v indexed m = Inr (v4, m') \<Longrightarrow>
   v4v_indexed (v4v_fields v4) = None"
  by (auto simp: v3_value_body_to_v4_def v4_store_defs Let_def
      split: option.splits if_splits sum.splits)

lemma v3_value_body_to_v4_error:
  "v3_value_body_to_v4 embedded v indexed m = Inl e \<Longrightarrow>
   \<exists>s. v3v_stringValue v = Some s \<and> embedded s = Inl e"
  by (auto simp: v3_value_body_to_v4_def Let_def split: option.splits if_splits sum.splits)

lemma v3_value_body_to_v1_exclude:
  "v3_value_body_to_v1 embedded id_resolver p indexed m = Inr (v1, m') \<Longrightarrow>
   v1v_exclude_from_indexes v1 = False"
  by (auto simp: v3_value_body_to_v1_def v1_store_defs Let_def
      split: option.splits if_splits sum.splits)

lemma v3_value_body_to_v1_error:
  "v3_value_body_to_v1 embedded id_resolver p indexed m = Inl e \<Longrightarrow>
   \<exists>s. v3v_stringValue (v3p_value p) = Some s \<and> embedded s = Inl e"
  by (auto simp: v3_value_body_to_v1_def v3_to_v1_key_not_Inl Let_def
      split: option.splits if_splits sum.splits)

lemma v3_property_to_v4_value_flag:
  "case v3_property_to_v4_value embedded p indexed of
     Inl e \<Rightarrow> \<exists>s. v3v_stringValue (v3p_value p) = Some s \<and> embedded s = Inl e
   | Inr v4 \<Rightarrow> v4v_indexed_get v4 = indexed \<and>
       v4v_indexed (v4v_fields v4) = (if indexed then None else Some False)"
proof (cases "v3_value_body_to_v4 embedded (v3p_value p) indexed (fst (v3_meaning_prologue p))")
  case (Inl e)
  then show ?thesis
    using v3_value_body_to_v4_error [OF Inl]
    by (simp add: v3_property_to_v4_value_def split_beta)
next
  case (Inr r)
  obtain v4 m' where r: "r = (v4, m')" by (cases r)
  from Inr r have "v4v_indexed (v4v_fields v4) = None"
    using v3_value_body_to_v4_indexed by blast
  with Inr r show ?thesis
    by (cases indexed)
       (simp_all add: v3_property_to_v4_value_def split_beta Let_def v4v_indexed_get_def
          v4_set_meaning_def v4_set_indexed_def v4_set_fields_def)
qed

lemma v3_property_to_v1_value_flag:
  "case v3_property_to_v1_value embedded id_resolver p indexed of
     Inl e \<Rightarrow> \<exists>s. v3v_stringValue (v3p_value p) = Some s \<and> embedded s = Inl e
   | Inr v1 \<Rightarrow> v1v_exclude_from_indexes v1 = (\<not> indexed)"
proof (cases "v3_value_body_to_v1 embedded id_resolver p indexed (fst (v3_meaning_prologue p))")
  case (Inl e)
  then show ?thesis
    using v3_value_body_to_v1_error [OF Inl]
    by (simp add: v3_property_to_v1_value_def split_beta)
next
  case (Inr r)
  obtain v1 m' where r: "r = (v1, m')" by (cases r)
  from Inr r have "v1v_exclude_from_indexes v1 = False"
    using v3_value_body_to_v1_exclude by blast
  with Inr r show ?thesis
    by (cases indexed)
       (simp_all add: v3_property_to_v1_value_def split_beta Let_def
          v1_set_meaning_def v1_set_exclude_from_indexes_def)
qed

text \<open>
  Claim C5, as the code has it. After the value body is converted, the flag of the
  destination reads as the \<open>indexed\<close> argument (v4) or as its negation (v1,
  \<open>exclude_from_indexes\<close>), whenever the conversion returns; it fails only where the
  conversion of an embedded entity fails. The store itself is guarded by a
  comparison with the flag's present value: the v4 field is written exactly when
  \<open>indexed\<close> is false, and stays unset, reading as its default, when it is true.
\<close>

theorem indexed_flag_written_when_it_differs:
  "(case v3_property_to_v4_value embedded4 p indexed of
      Inl e \<Rightarrow> \<exists>s. v3v_stringValue (v3p_value p) = Some s \<and> embedded4 s = Inl e
    | Inr v4 \<Rightarrow> v4v_indexed_get v4 = indexed \<and>
        v4v_indexed (v4v_fields v4) = (if indexed then None else Some False)) \<and>
   (case v3_property_to_v1_value embedded1 id_resolver p indexed of
      Inl e \<Rightarrow> \<exists>s. v3v_stringValue (v3p_value p) = Some s \<and> embedded1 s = Inl e
    | Inr v1 \<Rightarrow> v1v_exclude_from_indexes v1 = (\<not> indexed))"
  using v3_property_to_v4_value_flag v3_property_to_v1_value_flag by blast

text \<open>
  The claim as stated fails: converting an indexed boolean leaves the flag unwritten.
\<close>

theorem indexed_flag_not_written_counterexample:
  "v3_property_to_v4_value (\<lambda>s. Inl DecodeError)
       (v3_property_Clear\<lparr>v3p_name := ''done'',
          v3p_value := v3_property_value_Clear\<lparr>v3v_booleanValue := Some True\<rparr>\<rparr>)
       True =
     Inr (V4_Value (v4_fields_Clear\<lparr>v4v_boolean_value := Some True\<rparr>) None []) \<and>
   \<not> HasField (v4v_indexed (v4v_fields
       (V4_Value (v4_fields_Clear\<lparr>v4v_boolean_value := Some True\<rparr>) None [])))"
  by (simp add: to_v4_defs v3_property_Clear_def meanings)

section \<open>Empty lists\<close>

lemma empty_list_v1_to_v3:
  "v1_to_v3_entity serialized id_resolver
       (V1_Entity None [(name, V1_Value 0 (\<not> indexed) (Array_value []))]) False =
     Inr (new_v3_property v3_entity_proto_Clear indexed
            (v3_property_Clear\<lparr>v3p_name := name, v3p_meaning := Some EMPTY_LIST\<rparr>))"
  by (simp add: v1_to_v3_entity_def v3_property_Clear_def meanings)

lemma empty_list_property_to_v1:
  "v3_property_to_v1_value embedded id_resolver
       (v3_property_Clear\<lparr>v3p_name := name, v3p_meaning := Some EMPTY_LIST\<rparr>) indexed =
     Inr (V1_Value 0 (\<not> indexed) (Array_value []))"
  by (simp add: to_v1_defs v3_property_Clear_def meanings)

lemma empty_list_v3_to_v1:
  "v3_to_v1_entity embedded id_resolver
       (new_v3_property v3_entity_proto_Clear indexed
          (v3_property_Clear\<lparr>v3p_name := name, v3p_meaning := Some EMPTY_LIST\<rparr>)) =
     Inr (V1_Entity None [(name, V1_Value 0 (\<not> indexed) (Array_value []))])"
proof -
  have multiple: "\<not> v3p_multiple (v3_property_Clear\<lparr>v3p_name := name, v3p_meaning := Some EMPTY_LIST\<rparr>)"
    and name: "v3p_name (v3_property_Clear\<lparr>v3p_name := name, v3p_meaning := Some EMPTY_LIST\<rparr>) = name"
    by (simp_all add: v3_property_Clear_def)
  have add: "add_v1_property_to_entity embedded id_resolver
       (v3_property_Clear\<lparr>v3p_name := name, v3p_meaning := Some EMPTY_LIST\<rparr>) flag
       (V1_Entity None []) =
     Inr (V1_Entity None [(name, V1_Value 0 (\<not> flag) (Array_value []))])" for flag
    by (simp add: add_v1_property_to_entity_def empty_list_property_to_v1 multiple name
        v1_properties_modify_def v1_properties_contains_def)
  show ?thesis
    by (cases indexed)
       (simp_all add: v3_to_v1_entity_def new_v3_property_def v3_entity_proto_Clear_def
          v3n_key_get_def v3_reference_Clear_def v3_to_v1_key_def v1_key_Clear_def
          str_get_def HasField_def add)
qed

lemma empty_list_v4_to_v3:
  "v4_to_v3_entity serialized
       (V4_Entity None [(name, V4_Value
          (v4_fields_Clear\<lparr>v4v_meaning := Some MEANING_EMPTY_LIST, v4v_indexed := ix\<rparr>) None [])])
       False =
     Inr (new_v3_property v3_entity_proto_Clear (ix \<noteq> Some False)
            (v3_property_Clear\<lparr>v3p_name := name, v3p_meaning := Some EMPTY_LIST\<rparr>))"
  by (cases ix)
     (auto simp add: v4_to_v3_entity_def add_v3_property_from_v4_def v4_to_v3_property_def
        v4v_meaning_get_def v4v_indexed_get_def new_v3_property_def v3_property_Clear_def
        v4_fields_Clear_def HasField_def int_get_def meanings)

lemma empty_list_property_to_v4:
  "v3_property_to_v4_value embedded
       (v3_property_Clear\<lparr>v3p_name := name, v3p_meaning := Some EMPTY_LIST\<rparr>) indexed =
     Inr (V4_Value (v4_fields_Clear\<lparr>v4v_meaning := Some MEANING_EMPTY_LIST,
            v4v_indexed := (if indexed then None else Some False)\<rparr>) None [])"
  by (simp add: to_v4_defs v3_property_Clear_def meanings)

lemma empty_list_v3_to_v4:
  "v3_to_v4_entity embedded
       (new_v3_property v3_entity_proto_Clear indexed
          (v3_property_Clear\<lparr>v3p_name := name, v3p_meaning := Some EMPTY_LIST\<rparr>)) =
     Inr (V4_Entity None [(name, V4_Value
            (v4_fields_Clear\<lparr>v4v_meaning := Some MEANING_EMPTY_LIST,
               v4v_indexed := (if indexed then None else Some False)\<rparr>) None [])])"
proof -
  have multiple: "\<not> v3p_multiple (v3_property_Clear\<lparr>v3p_name := name, v3p_meaning := Some EMPTY_LIST\<rparr>)"
    and name: "v3p_name (v3_property_Clear\<lparr>v3p_name := name, v3p_meaning := Some EMPTY_LIST\<rparr>) = name"
    by (simp_all add: v3_property_Clear_def)
  have add: "add_v4_property_to_entity embedded
       (v3_property_Clear\<lparr>v3p_name := name, v3p_meaning := Some EMPTY_LIST\<rparr>) flag
       (V4_Entity None []) =
     Inr (V4_Entity None [(name, V4_Value
            (v4_fields_Clear\<lparr>v4v_meaning := Some MEANING_EMPTY_LIST,
               v4v_indexed := (if flag then None else Some False)\<rparr>) None [])])" for flag
    by (simp add: add_v4_property_to_entity_def empty_list_property_to_v4 multiple name
        v4_update_property_def)
  show ?thesis
    by (cases indexed)
       (simp_all add: v3_to_v4_entity_def new_v3_property_def v3_entity_proto_Clear_def
          v3n_key_get_def v3_reference_Clear_def HasField_def add)
qed

text \<open>
  Claim C4. For every property name and flag, a v1 entity whose property is an array
  with no element converts to a legacy entity and back to the same v1 entity, with the
  property present and its array empty, while the entity without the property converts
  back to an entity without properties. In v4 the empty list is the Value tagged with
  the empty-list meaning, which comes back with the tag and with its flag. The legacy
  property tagged as an empty list converts to the empty array (v1) or to the tagged
  Value (v4), and that converts back to the tagged legacy property.
\<close>

theorem empty_list_round_trip:
  "(\<exists>v3_entity.
      v1_to_v3_entity serialized1 id_resolver
          (V1_Entity None [(name, V1_Value 0 (\<not> indexed) (Array_value []))]) False = Inr v3_entity \<and>
      v3_to_v1_entity embedded1 id_resolver v3_entity =
        Inr (V1_Entity None [(name, V1_Value 0 (\<not> indexed) (Array_value []))])) \<and>
   (\<exists>v3_entity.
      v1_to_v3_entity serialized1 id_resolver (V1_Entity None []) False = Inr v3_entity \<and>
      v3_to_v1_entity embedded1 id_resolver v3_entity = Inr (V1_Entity None [])) \<and>
   v1_properties_contains [(name, V1_Value 0 (\<not> indexed) (Array_value []))] name \<and>
   \<not> v1_properties_contains [] name \<and>
   (\<exists>v3_entity.
      v4_to_v3_entity serialized4
          (V4_Entity None [(name, V4_Value
             (v4_fields_Clear\<lparr>v4v_meaning := Some MEANING_EMPTY_LIST, v4v_indexed := ix\<rparr>) None [])])
          False = Inr v3_entity \<and>
      v3_to_v4_entity embedded4 v3_entity =
        Inr (V4_Entity None [(name, V4_Value
               (v4_fields_Clear\<lparr>v4v_meaning := Some MEANING_EMPTY_LIST,
                  v4v_indexed := (if ix = Some False then Some False else None)\<rparr>) None [])])) \<and>
   (\<exists>v3_entity.
      v4_to_v3_entity serialized4 (V4_Entity None []) False = Inr v3_entity \<and>
      v3_to_v4_entity embedded4 v3_entity = Inr (V4_Entity None [])) \<and>
   (\<exists>v1_value.
      v3_property_to_v1_value embedded1 id_resolver
          (v3_property_Clear\<lparr>v3p_name := name, v3p_meaning := Some EMPTY_LIST\<rparr>) indexed = Inr v1_value \<and>
      v1v_value_type v1_value = Array_value [] \<and>
      v1_to_v3_entity serialized1 id_resolver (V1_Entity None [(name, v1_value)]) False =
        Inr (new_v3_property v3_entity_proto_Clear indexed
               (v3_property_Clear\<lparr>v3p_name := name, v3p_meaning := Some EMPTY_LIST\<rparr>))) \<and>
   (\<exists>v4_value v3_property.
      v3_property_to_v4_value embedded4
          (v3_property_Clear\<lparr>v3p_name := name, v3p_meaning := Some EMPTY_LIST\<rparr>) indexed = Inr v4_value \<and>
      v4v_meaning (v4v_fields v4_value) = Some MEANING_EMPTY_LIST \<and>
      v4_to_v3_property serialized4 name False False v4_value = Inr v3_property \<and>
      v3_property = v3_property_Clear\<lparr>v3p_name := name, v3p_meaning := Some EMPTY_LIST\<rparr>)"
proof (intro conjI)
  show "\<exists>v3_entity.
      v1_to_v3_entity serialized1 id_resolver
          (V1_Entity None [(name, V1_Value 0 (\<not> indexed) (Array_value []))]) False = Inr v3_entity \<and>
      v3_to_v1_entity embedded1 id_resolver v3_entity =
        Inr (V1_Entity None [(name, V1_Value 0 (\<not> indexed) (Array_value []))])"
    by (simp add: empty_list_v1_to_v3 empty_list_v3_to_v1)
  show "\<exists>v3_entity.
      v1_to_v3_entity serialized1 id_resolver (V1_Entity None []) False = Inr v3_entity \<and>
      v3_to_v1_entity embedded1 id_resolver v3_entity = Inr (V1_Entity None [])"
    by (simp add: v1_to_v3_entity_def v3_to_v1_entity_def v3_entity_proto_Clear_def
        v3n_key_get_def v3_reference_Clear_def v3_to_v1_key_def v1_key_Clear_def
        str_get_def HasField_def)
  show "v1_properties_contains [(name, V1_Value 0 (\<not> indexed) (Array_value []))] name"
    and "\<not> v1_properties_contains [] name"
    by (simp_all add: v1_properties_contains_def)
  show "\<exists>v3_entity.
      v4_to_v3_entity serialized4
          (V4_Entity None [(name, V4_Value
             (v4_fields_Clear\<lparr>v4v_meaning := Some MEANING_EMPTY_LIST, v4v_indexed := ix\<rparr>) None [])])
          False = Inr v3_entity \<and>
      v3_to_v4_entity embedded4 v3_entity =
        Inr (V4_Entity None [(name, V4_Value
               (v4_fields_Clear\<lparr>v4v_meaning := Some MEANING_EMPTY_LIST,
                  v4v_indexed := (if ix = Some False then Some False else None)\<rparr>) None [])])"
    by (simp add: empty_list_v4_to_v3 empty_list_v3_to_v4)
  show "\<exists>v3_entity.
      v4_to_v3_entity serialized4 (V4_Entity None []) False = Inr v3_entity \<and>
      v3_to_v4_entity embedded4 v3_entity = Inr (V4_Entity None [])"
    by (simp add: v4_to_v3_entity_def v3_to_v4_entity_def v3_entity_proto_Clear_def
        v3n_key_get_def v3_reference_Clear_def HasField_def)
  show "\<exists>v1_value.
      v3_property_to_v1_value embedded1 id_resolver
          (v3_property_Clear\<lparr>v3p_name := name, v3p_meaning := Some EMPTY_LIST\<rparr>) indexed = Inr v1_value \<and>
      v1v_value_type v1_value = Array_value [] \<and>
      v1_to_v3_entity serialized1 id_resolver (V1_Entity None [(name, v1_value)]) False =
        Inr (new_v3_property v3_entity_proto_Clear indexed
               (v3_property_Clear\<lparr>v3p_name := name, v3p_meaning := Some EMPTY_LIST\<rparr>))"
    by (simp add: empty_list_property_to_v1 empty_list_v1_to_v3)
  show "\<exists>v4_value v3_property.
      v3_property_to_v4_value embedded4
          (v3_property_Clear\<lparr>v3p_name := name, v3p_meaning := Some EMPTY_LIST\<rparr>) indexed = Inr v4_value \<and>
      v4v_meaning (v4v_fields v4_value) = Some MEANING_EMPTY_LIST \<and>
      v4_to_v3_property serialized4 name False False v4_value = Inr v3_property \<and>
      v3_property = v3_property_Clear\<lparr>v3p_name := name, v3p_meaning := Some EMPTY_LIST\<rparr>"
    unfolding empty_list_property_to_v4
    by (simp add: v4_to_v3_property_def v4v_meaning_get_def v3_property_Clear_def
        v4_fields_Clear_def HasField_def int_get_def meanings)
qed

text \<open>
  The round trip does not enter an embedded entity, so it holds as well for the
  converters tied to the parser and the serializer, at any depth.
\<close>

lemma empty_list_round_trip_nested:
  "(\<exists>v3_entity.
      v1_to_v3_entity_nested depth serialize id_resolver
          (V1_Entity None [(name, V1_Value 0 (\<not> indexed) (Array_value []))]) False = Inr v3_entity \<and>
      v3_to_v1_entity_nested depth' parse id_resolver v3_entity =
        Inr (V1_Entity None [(name, V1_Value 0 (\<not> indexed) (Array_value []))])) \<and>
   (\<exists>v3_entity.
      v4_to_v3_entity_nested depth serialize
          (V4_Entity None [(name, V4_Value
             (v4_fields_Clear\<lparr>v4v_meaning := Some MEANING_EMPTY_LIST, v4v_indexed := ix\<rparr>) None [])])
          False = Inr v3_entity \<and>
      v3_to_v4_entity_nested v3_entity =
        Inr (V4_Entity None [(name, V4_Value
               (v4_fields_Clear\<lparr>v4v_meaning := Some MEANING_EMPTY_LIST,
                  v4v_indexed := (if ix = Some False then Some False else None)\<rparr>) None [])]))"
  by (cases depth; cases depth')
     (simp_all add: empty_list_v1_to_v3 empty_list_v3_to_v1 empty_list_v4_to_v3
        empty_list_v3_to_v4 v3_to_v4_entity_nested_def)

section \<open>Filter conversion\<close>

text \<open>
  Claim C8. Both filter converters raise the invalid-conversion error \<open>invalid filter\<close>
  unless the filter has exactly one property, and then raise the invalid-conversion
  error \<open>unsupported filter op: n\<close>, with the operator in decimal, when the operator is
  above 5; so a filter over more than one property, or with an operator above 5, always
  fails with an invalid-conversion error. Otherwise the result has the filter's
  operator, the name of its property and the property's value converted as indexed
  (and fails where that conversion fails).
\<close>

theorem filter_conversion:
  "(length (v3f_property v3_filter) \<noteq> 1 \<longrightarrow>
      v3_filter_to_v1_property_filter embedded1 id_resolver v3_filter =
        Inl (InvalidConversionError ''invalid filter'') \<and>
      v3_filter_to_v4_property_filter embedded4 v3_filter =
        Inl (InvalidConversionError ''invalid filter'')) \<and>
   (length (v3f_property v3_filter) = 1 \<and> 5 < v3f_op v3_filter \<longrightarrow>
      v3_filter_to_v1_property_filter embedded1 id_resolver v3_filter =
        Inl (InvalidConversionError (''unsupported filter op: '' @ format_d (v3f_op v3_filter))) \<and>
      v3_filter_to_v4_property_filter embedded4 v3_filter =
        Inl (InvalidConversionError (''unsupported filter op: '' @ format_d (v3f_op v3_filter)))) \<and>
   (5 < v3f_op v3_filter \<or> 1 < length (v3f_property v3_filter) \<longrightarrow>
      (\<exists>message. v3_filter_to_v1_property_filter embedded1 id_resolver v3_filter =
         Inl (InvalidConversionError message)) \<and>
      (\<exists>message. v3_filter_to_v4_property_filter embedded4 v3_filter =
         Inl (InvalidConversionError message))) \<and>
   (length (v3f_property v3_filter) = 1 \<and> v3f_op v3_filter \<le> 5 \<longrightarrow>
      v3_filter_to_v1_property_filter embedded1 id_resolver v3_filter =
        (case v3_property_to_v1_value embedded1 id_resolver (hd (v3f_property v3_filter)) True of
           Inl e \<Rightarrow> Inl e
         | Inr v1_value \<Rightarrow>
             Inr \<lparr>v1pf_op = v3f_op v3_filter,
                  v1pf_property_name = v3p_name (hd (v3f_property v3_filter)),
                  v1pf_value = v1_value\<rparr>) \<and>
      v3_filter_to_v4_property_filter embedded4 v3_filter =
        (case v3_property_to_v4_value embedded4 (hd (v3f_property v3_filter)) True of
           Inl e \<Rightarrow> Inl e
         | Inr v4_value \<Rightarrow>
             Inr \<lparr>v4pf_operator = v3f_op v3_filter,
                  v4pf_property_name = v3p_name (hd (v3f_property v3_filter)),
                  v4pf_value = v4_value\<rparr>)) \<and>
   format_d 9 = ''9''"
proof (intro conjI impI)
  assume "5 < v3f_op v3_filter \<or> 1 < length (v3f_property v3_filter)"
  then show "\<exists>message. v3_filter_to_v1_property_filter embedded1 id_resolver v3_filter =
         Inl (InvalidConversionError message)"
    by (auto simp: v3_filter_to_v1_property_filter_def check_conversion_def)
next
  assume "5 < v3f_op v3_filter \<or> 1 < length (v3f_property v3_filter)"
  then show "\<exists>message. v3_filter_to_v4_property_filter embedded4 v3_filter =
         Inl (InvalidConversionError message)"
    by (auto simp: v3_filter_to_v4_property_filter_def check_conversion_def)
next
  assume a: "length (v3f_property v3_filter) = 1 \<and> v3f_op v3_filter \<le> 5"
  then obtain single where "v3f_property v3_filter = [single]"
    by (cases "v3f_property v3_filter") simp_all
  with a show "v3_filter_to_v1_property_filter embedded1 id_resolver v3_filter =
        (case v3_property_to_v1_value embedded1 id_resolver (hd (v3f_property v3_filter)) True of
           Inl e \<Rightarrow> Inl e
         | Inr v1_value \<Rightarrow>
             Inr \<lparr>v1pf_op = v3f_op v3_filter,
                  v1pf_property_name = v3p_name (hd (v3f_property v3_filter)),
                  v1pf_value = v1_value\<rparr>)"
    by (simp add: v3_filter_to_v1_property_filter_def check_conversion_def split: sum.splits)
next
  assume a: "length (v3f_property v3_filter) = 1 \<and> v3f_op v3_filter \<le> 5"
  then obtain single where "v3f_property v3_filter = [single]"
    by (cases "v3f_property v3_filter") simp_all
  with a show "v3_filter_to_v4_property_filter embedded4 v3_filter =
        (case v3_property_to_v4_value embedded4 (hd (v3f_property v3_filter)) True of
           Inl e \<Rightarrow> Inl e
         | Inr v4_value \<Rightarrow>
             Inr \<lparr>v4pf_operator = v3f_op v3_filter,
                  v4pf_property_name = v3p_name (hd (v3f_property v3_filter)),
                  v4pf_value = v4_value\<rparr>)"
    by (simp add: v3_filter_to_v4_property_filter_def check_conversion_def split: sum.splits)
qed (simp_all add: v3_filter_to_v1_property_filter_def v3_filter_to_v4_property_filter_def
      check_conversion_def format_d_def digit_def decimal.simps)

theorem filter_conversion_witness:
  "v3_filter_to_v1_property_filter (\<lambda>s. Inl DecodeError) IdentityIdResolver
       \<lparr>v3f_op = 5, v3f_property = [title_property]\<rparr> =
     Inr \<lparr>v1pf_op = 5, v1pf_property_name = ''title'',
          v1pf_value = V1_Value 0 False (String_value ''a'')\<rparr> \<and>
   v3_filter_to_v1_property_filter (\<lambda>s. Inl DecodeError) IdentityIdResolver
       \<lparr>v3f_op = 9, v3f_property = [title_property]\<rparr> =
     Inl (InvalidConversionError ''unsupported filter op: 9'') \<and>
   v3_filter_to_v4_property_filter (\<lambda>s. Inl DecodeError)
       \<lparr>v3f_op = 5, v3f_property = [title_property, title_property]\<rparr> =
     Inl (InvalidConversionError ''invalid filter'')"
proof -
  have v: "v3_property_to_v1_value (\<lambda>s. Inl DecodeError) IdentityIdResolver title_property True =
      Inr (V1_Value 0 False (String_value ''a''))"
    by (simp add: title_property_def to_v1_defs v3_property_Clear_def is_valid_utf8_def
        str_get_def meanings)
  have n: "v3p_name title_property = ''title''"
    by (simp add: title_property_def)
  show ?thesis
    using filter_conversion [of "\<lparr>v3f_op = 5, v3f_property = [title_property]\<rparr>"
        "\<lambda>s. Inl DecodeError" IdentityIdResolver "\<lambda>s. Inl DecodeError"]
      filter_conversion [of "\<lparr>v3f_op = 9, v3f_property = [title_property]\<rparr>"
        "\<lambda>s. Inl DecodeError" IdentityIdResolver "\<lambda>s. Inl DecodeError"]
      filter_conversion [of "\<lparr>v3f_op = 5, v3f_property = [title_property, title_property]\<rparr>"
        "\<lambda>s. Inl DecodeError" IdentityIdResolver "\<lambda>s. Inl DecodeError"]
    by (simp add: v n format_d_def digit_def decimal.simps)
qed

end
